theory Spec2Isabelle
  imports Main "HOL-Library.Word"
begin

section \<open>Values of the document service\<close>

text \<open>
  A JavaScript string is a sequence of UTF-16 code units: \<open>length\<close> counts code units and
  \<open>substring\<close> cuts between them. Identifiers, status names and messages are plain
  ASCII and kept as HOL strings; document text, which comes out of arbitrary PDF files,
  is a list of 16-bit words.
\<close>

type_synonym jsstring = "16 word list"

type_synonym buffer = "8 word list"

definition js :: "string \<Rightarrow> jsstring" where
  "js s = map (\<lambda>c. of_nat (of_char c)) s"

datatype error =
    Enoent string
  | FsError string
  | BsonError string
  | StorageError
  | TypeError string
  | Rejected
  | ErrorMsg string

text \<open>
  A promise of an external library, as the only thing the pipeline observes of it: after
  how many milliseconds it settles, and with what; or that it never settles.
\<close>

datatype 'a promise = Settles nat "error + 'a" | Never

text \<open>The records of the five collections (only the fields the routes read or write).\<close>

record document =
  oid :: string
  userId :: string
  filename :: string
  originalName :: string
  mimeType :: string
  fileSize :: nat
  status :: string
  processingProgress :: "int option"
  pageCount :: "int option"
  processedAt :: "nat option"
  uploadDate :: "nat option"

text \<open>\<open>Partial<Document>\<close> as the routes pass it to \<open>updateDocument\<close>.\<close>

record doc_update =
  upd_status :: "string option"
  upd_processingProgress :: "int option"
  upd_processedAt :: "nat option"
  upd_pageCount :: "int option"

record page =
  pg_documentId :: string
  pageNumber :: nat
  extractedText :: jsstring
  ocrConfidence :: nat

type_synonym entity = jsstring

record analysis =
  summary :: jsstring
  keywordsList :: "jsstring list"
  entities :: "entity list"
  tables :: "jsstring list"
  wordCount :: nat
  characterCount :: nat

record extraction =
  ext_oid :: string
  ext_documentId :: string
  extractionType :: string
  ext_data :: analysis

record chat_message =
  msg_oid :: string
  msg_documentId :: string
  msg_userId :: string
  msg_role :: string
  msg_content :: jsstring

record text_statistics =
  st_wordCount :: nat
  st_characterCount :: nat

record pdf_data =
  pdf_text :: "jsstring option"
  numpages :: "int option"

text \<open>The file multer hands to the upload route, and the part as the client sent it.\<close>

record upload_part =
  part_originalname :: string
  part_mimetype :: string
  part_content :: buffer

record multer_file =
  mf_filename :: string
  mf_originalname :: string
  mf_mimetype :: string
  mf_size :: nat
  mf_path :: string

section \<open>The world and the trace of what the program did to it\<close>

text \<open>
  Every call that leaves the process is recorded, in the order the source issues it:
  storage writes, file system calls, the PDF parser, the NLP module, the AI provider, the
  calls that are started without being awaited, and each entry into \<open>processDocument\<close>.
\<close>

datatype catcher = UploadCatch | RetryCatch

datatype job =
    JobProcess string string catcher
  | JobEnhance string jsstring

datatype event =
    EvCreateDocument document
  | EvUpdateDocument string doc_update
  | EvDeleteDocument string
  | EvProcessDocument string string
  | EvReadFile string
  | EvUnlink string
  | EvPdfParse buffer nat
  | EvCreatePage page
  | EvTextStatistics jsstring
  | EvNlp jsstring nat
  | EvCreateExtraction extraction
  | EvUpdateExtraction string analysis
  | EvAiCall jsstring nat
  | EvCreateChatMessage chat_message
  | EvSpawn job

record world =
  documents :: "document list"
  pages :: "page list"
  extractions :: "extraction list"
  chatMessages :: "chat_message list"
  files :: "string \<rightharpoonup> buffer"
  jobs :: "job list"
  trace :: "event list"
  nextOid :: nat

text \<open>The call sites of the storage layer and of the file system, for the failure oracle.\<close>

datatype site =
    SGetDocument
  | SGetExtractions
  | SGetPages
  | SGetDocuments
  | SCreateDocument
  | SUploadMarkError
  | SRetryReset
  | SRetryMarkError
  | SDeleteDocument
  | SGetChatMessages
  | SCreateUserMessage
  | SCreateAssistantMessage
  | SProgress10
  | SProgress25
  | SCreatePage
  | SProgress40
  | SProgress60
  | SCreateExtraction
  | SMarkCompleted
  | SMarkError
  | SSweepMarkError
  | FReadFile
  | FUnlink

text \<open>
  Everything outside the repository is a parameter: the MongoDB driver (which calls fail,
  which strings \<open>new ObjectId\<close> accepts, which ids it generates), the file system, the
  PDF parser, the \<open>./nlp\<close> module, the generative model behind \<open>./gemini\<close>, the chat
  model behind \<open>./openai\<close>, \<open>path.extname\<close>, the clock and the environment variables.
  \<open>getExtraction\<close> and \<open>updateExtraction\<close> are called by the AI enhancement on the storage
  object, whose class under \<open>./storage\<close> declares neither; they are parameters too (with
  that class, both calls raise a \<open>TypeError\<close>).
\<close>

record env =
  fails :: "site \<Rightarrow> string \<Rightarrow> bool"
  validObjectId :: "string \<Rightarrow> bool"
  newObjectId :: "nat \<Rightarrow> string"
  pdfParse :: "buffer \<Rightarrow> pdf_data promise"
  getTextStatistics :: "jsstring \<Rightarrow> error + text_statistics"
  extractEntities :: "jsstring \<Rightarrow> entity list promise"
  extractKeywordsFromText :: "jsstring \<Rightarrow> jsstring list promise"
  apiKey :: "string option"
  generateContent :: "jsstring \<Rightarrow> jsstring promise"
  getExtraction :: "extraction list \<Rightarrow> string \<Rightarrow> string \<Rightarrow> error + extraction option"
  updateExtraction :: "extraction list \<Rightarrow> string \<Rightarrow> analysis \<Rightarrow> error + extraction list"
  generateChatResponse :: "jsstring \<Rightarrow> jsstring \<Rightarrow> (string \<times> jsstring) list \<Rightarrow> error + jsstring"
  extname :: "string \<Rightarrow> string"
  uniqueSuffix :: string
  now :: nat
  cwd :: string

section \<open>Programs: state passing with errors\<close>

type_synonym 'a prog = "world \<Rightarrow> (error + 'a) \<times> world"

definition ret :: "'a \<Rightarrow> 'a prog" where
  "ret a = (\<lambda>s. (Inr a, s))"

definition throw :: "error \<Rightarrow> 'a prog" where
  "throw e = (\<lambda>s. (Inl e, s))"

definition bind :: "'a prog \<Rightarrow> ('a \<Rightarrow> 'b prog) \<Rightarrow> 'b prog" where
  "bind m f = (\<lambda>s. case m s of (Inl e, s') \<Rightarrow> (Inl e, s') | (Inr a, s') \<Rightarrow> f a s')"

definition catch :: "'a prog \<Rightarrow> (error \<Rightarrow> 'a prog) \<Rightarrow> 'a prog" where
  "catch m h = (\<lambda>s. case m s of (Inl e, s') \<Rightarrow> h e s' | (Inr a, s') \<Rightarrow> (Inr a, s'))"

definition emit :: "event \<Rightarrow> unit prog" where
  "emit ev = (\<lambda>s. (Inr (), s\<lparr>trace := trace s @ [ev]\<rparr>))"

definition lift :: "error + 'a \<Rightarrow> 'a prog" where
  "lift r = (\<lambda>s. (r, s))"

text \<open>
  \<open>withTimeout\<close> races the promise against a timer that rejects with \<open>errorMsg\<close>; the
  promise wins when it settles strictly before the timer fires.
\<close>

definition withTimeout :: "'a promise \<Rightarrow> nat \<Rightarrow> string \<Rightarrow> error + 'a" where
  "withTimeout p timeoutMs errorMsg =
     (case p of
        Settles t r \<Rightarrow> if t < timeoutMs then r else Inl (ErrorMsg errorMsg)
      | Never \<Rightarrow> Inl (ErrorMsg errorMsg))"

text \<open>
  \<open>Promise.all\<close> of two promises: fulfilled when both are, rejected as soon as one is.
\<close>

fun promise_all2 :: "'a promise \<Rightarrow> 'b promise \<Rightarrow> ('a \<times> 'b) promise" where
  "promise_all2 (Settles t1 (Inr a)) (Settles t2 (Inr b)) = Settles (max t1 t2) (Inr (a, b))"
| "promise_all2 (Settles t1 (Inl e1)) (Settles t2 (Inl e2)) =
     (if t2 < t1 then Settles t2 (Inl e2) else Settles t1 (Inl e1))"
| "promise_all2 (Settles t1 (Inl e1)) _ = Settles t1 (Inl e1)"
| "promise_all2 _ (Settles t2 (Inl e2)) = Settles t2 (Inl e2)"
| "promise_all2 _ _ = Never"

section \<open>The storage layer (class \<open>MongoStorage\<close>)\<close>

text \<open>
  \<open>new ObjectId(id)\<close> raises on a string the driver does not accept; every driver call
  can fail. A write is recorded when it is handed to the driver.
\<close>

definition objectId :: "env \<Rightarrow> string \<Rightarrow> unit prog" where
  "objectId E i = (if validObjectId E i then ret () else throw (BsonError i))"

definition driver :: "env \<Rightarrow> site \<Rightarrow> string \<Rightarrow> (world \<Rightarrow> 'a \<times> world) \<Rightarrow> 'a prog" where
  "driver E st i f =
     (\<lambda>s. if fails E st i then (Inl StorageError, s) else (case f s of (a, s') \<Rightarrow> (Inr a, s')))"

definition apply_update :: "doc_update \<Rightarrow> document \<Rightarrow> document" where
  "apply_update u d = d
     \<lparr> status := (case upd_status u of None \<Rightarrow> status d | Some v \<Rightarrow> v),
       processingProgress :=
         (case upd_processingProgress u of None \<Rightarrow> processingProgress d | Some v \<Rightarrow> Some v),
       pageCount := (case upd_pageCount u of None \<Rightarrow> pageCount d | Some v \<Rightarrow> Some v),
       processedAt := (case upd_processedAt u of None \<Rightarrow> processedAt d | Some v \<Rightarrow> Some v) \<rparr>"

fun update_first :: "('a \<Rightarrow> bool) \<Rightarrow> ('a \<Rightarrow> 'a) \<Rightarrow> 'a list \<Rightarrow> 'a list" where
  "update_first P f [] = []"
| "update_first P f (x # xs) = (if P x then f x # xs else x # update_first P f xs)"

fun delete_first :: "('a \<Rightarrow> bool) \<Rightarrow> 'a list \<Rightarrow> 'a list" where
  "delete_first P [] = []"
| "delete_first P (x # xs) = (if P x then xs else x # delete_first P xs)"

definition uploadRank :: "document \<Rightarrow> int" where
  "uploadRank d = (case uploadDate d of None \<Rightarrow> 0 | Some t \<Rightarrow> - (int t) - 1)"

definition getDocuments :: "env \<Rightarrow> string \<Rightarrow> document list prog" where
  "getDocuments E uid =
     driver E SGetDocuments uid
       (\<lambda>s. (sort_key uploadRank (filter (\<lambda>d. userId d = uid) (documents s)), s))"

definition getDocument :: "env \<Rightarrow> string \<Rightarrow> document option prog" where
  "getDocument E i =
     bind (objectId E i) (\<lambda>_.
       driver E SGetDocument i (\<lambda>s. (find (\<lambda>d. oid d = i) (documents s), s)))"

definition getExtractions :: "env \<Rightarrow> string \<Rightarrow> extraction list prog" where
  "getExtractions E i =
     driver E SGetExtractions i (\<lambda>s. (filter (\<lambda>x. ext_documentId x = i) (extractions s), s))"

definition getPages :: "env \<Rightarrow> string \<Rightarrow> page list prog" where
  "getPages E i =
     driver E SGetPages i
       (\<lambda>s. (sort_key pageNumber (filter (\<lambda>p. pg_documentId p = i) (pages s)), s))"

definition createDocument :: "env \<Rightarrow> document \<Rightarrow> document prog" where
  "createDocument E d =
     (\<lambda>s0. let k = newObjectId E (nextOid s0); d' = d\<lparr>oid := k\<rparr> in
        bind (emit (EvCreateDocument d')) (\<lambda>_.
          driver E SCreateDocument k (\<lambda>s. (d', s\<lparr>documents := documents s @ [d']\<rparr>)))
        (s0\<lparr>nextOid := Suc (nextOid s0)\<rparr>))"

definition updateDocument :: "env \<Rightarrow> site \<Rightarrow> string \<Rightarrow> doc_update \<Rightarrow> document option prog" where
  "updateDocument E st i u =
     bind (objectId E i) (\<lambda>_.
     bind (emit (EvUpdateDocument i u)) (\<lambda>_.
       driver E st i (\<lambda>s.
         (map_option (apply_update u) (find (\<lambda>d. oid d = i) (documents s)),
          s\<lparr>documents := update_first (\<lambda>d. oid d = i) (apply_update u) (documents s)\<rparr>))))"

definition deleteDocument :: "env \<Rightarrow> string \<Rightarrow> unit prog" where
  "deleteDocument E i =
     bind (objectId E i) (\<lambda>_.
     bind (emit (EvDeleteDocument i)) (\<lambda>_.
       driver E SDeleteDocument i (\<lambda>s.
         ((), s\<lparr>documents := delete_first (\<lambda>d. oid d = i) (documents s)\<rparr>))))"

definition createPage :: "env \<Rightarrow> page \<Rightarrow> page prog" where
  "createPage E p =
     (\<lambda>s0.
        bind (emit (EvCreatePage p)) (\<lambda>_.
          driver E SCreatePage (pg_documentId p) (\<lambda>s. (p, s\<lparr>pages := pages s @ [p]\<rparr>)))
        (s0\<lparr>nextOid := Suc (nextOid s0)\<rparr>))"

definition createExtraction :: "env \<Rightarrow> extraction \<Rightarrow> extraction prog" where
  "createExtraction E x =
     (\<lambda>s0. let x' = x\<lparr>ext_oid := newObjectId E (nextOid s0)\<rparr> in
        bind (emit (EvCreateExtraction x')) (\<lambda>_.
          driver E SCreateExtraction (ext_documentId x)
            (\<lambda>s. (x', s\<lparr>extractions := extractions s @ [x']\<rparr>)))
        (s0\<lparr>nextOid := Suc (nextOid s0)\<rparr>))"

text \<open>
  No route writes the \<open>createdAt\<close> field the chat query sorts by, so the messages come
  back in the order they were inserted.
\<close>

definition getChatMessages :: "env \<Rightarrow> string \<Rightarrow> chat_message list prog" where
  "getChatMessages E i =
     driver E SGetChatMessages i
       (\<lambda>s. (filter (\<lambda>m. msg_documentId m = i) (chatMessages s), s))"

definition createChatMessage :: "env \<Rightarrow> site \<Rightarrow> chat_message \<Rightarrow> chat_message prog" where
  "createChatMessage E st m =
     (\<lambda>s0. let m' = m\<lparr>msg_oid := newObjectId E (nextOid s0)\<rparr> in
        bind (emit (EvCreateChatMessage m')) (\<lambda>_.
          driver E st (msg_documentId m)
            (\<lambda>s. (m', s\<lparr>chatMessages := chatMessages s @ [m']\<rparr>)))
        (s0\<lparr>nextOid := Suc (nextOid s0)\<rparr>))"

definition joinWith :: "'a list \<Rightarrow> 'a list list \<Rightarrow> 'a list" where
  "joinWith sep xs = (case xs of [] \<Rightarrow> [] | y # ys \<Rightarrow> y @ concat (map (\<lambda>z. sep @ z) ys))"

definition getDocumentWithExtractions ::
  "env \<Rightarrow> string \<Rightarrow> (document \<times> extraction list \<times> jsstring) option prog" where
  "getDocumentWithExtractions E i =
     bind (getDocument E i) (\<lambda>doc.
       case doc of
         None \<Rightarrow> ret None
       | Some d \<Rightarrow>
           bind (getExtractions E i) (\<lambda>xs.
           bind (getPages E i) (\<lambda>ps.
             ret (Some (d, xs, joinWith [10, 10] (map extractedText ps))))))"

section \<open>The file system\<close>

definition path_join :: "string \<Rightarrow> string \<Rightarrow> string" where
  "path_join a b = a @ ''/'' @ b"

definition uploadDir :: "env \<Rightarrow> string" where
  "uploadDir E = path_join (cwd E) ''uploads''"

definition existsSync :: "world \<Rightarrow> string \<Rightarrow> bool" where
  "existsSync s p = (files s p \<noteq> None)"

definition readFileSync :: "env \<Rightarrow> string \<Rightarrow> buffer prog" where
  "readFileSync E p =
     bind (emit (EvReadFile p)) (\<lambda>_. \<lambda>s.
       case files s p of
         None \<Rightarrow> (Inl (Enoent p), s)
       | Some b \<Rightarrow> if fails E FReadFile p then (Inl (FsError p), s) else (Inr b, s))"

definition unlinkSync :: "env \<Rightarrow> string \<Rightarrow> unit prog" where
  "unlinkSync E p =
     bind (emit (EvUnlink p)) (\<lambda>_. \<lambda>s.
       case files s p of
         None \<Rightarrow> (Inl (Enoent p), s)
       | Some b \<Rightarrow>
           if fails E FUnlink p then (Inl (FsError p), s)
           else (Inr (), s\<lparr>files := (files s)(p := None)\<rparr>))"

section \<open>String functions of the JavaScript library, as the pipeline uses them\<close>

definition substring0 :: "jsstring \<Rightarrow> nat \<Rightarrow> jsstring" where
  "substring0 t n = take n t"

definition isWhiteSpace :: "16 word \<Rightarrow> bool" where
  "isWhiteSpace c \<longleftrightarrow>
     c \<in> {0x9, 0xA, 0xB, 0xC, 0xD, 0x20, 0xA0, 0x1680, 0x2028, 0x2029, 0x202F, 0x205F,
          0x3000, 0xFEFF}
     \<or> (0x2000 \<le> c \<and> c \<le> 0x200A)"

definition trim :: "jsstring \<Rightarrow> jsstring" where
  "trim t = rev (dropWhile isWhiteSpace (rev (dropWhile isWhiteSpace t)))"

text \<open>\<open>split(/[.!?]+/)\<close>: the pieces between maximal runs of sentence terminators.\<close>

definition isTerminator :: "16 word \<Rightarrow> bool" where
  "isTerminator c \<longleftrightarrow> c = 0x2E \<or> c = 0x21 \<or> c = 0x3F"

function splitSentences :: "jsstring \<Rightarrow> jsstring \<Rightarrow> jsstring list" where
  "splitSentences cur [] = [rev cur]"
| "splitSentences cur (c # cs) =
     (if isTerminator c then rev cur # splitSentences [] (dropWhile isTerminator cs)
      else splitSentences (c # cur) cs)"
  by pat_completeness auto
termination
  by (relation "measure (\<lambda>(cur, cs). length cs)")
     (auto simp: le_imp_less_Suc length_dropWhile_le)

text \<open>\<open>split(",")\<close>.\<close>

fun splitComma :: "jsstring \<Rightarrow> jsstring \<Rightarrow> jsstring list" where
  "splitComma cur [] = [rev cur]"
| "splitComma cur (c # cs) =
     (if c = 0x2C then rev cur # splitComma [] cs else splitComma (c # cur) cs)"

text \<open>The quick summary of \<open>processDocument\<close>: the first five sentences of some length.\<close>

definition quickSummary :: "jsstring \<Rightarrow> jsstring" where
  "quickSummary processText =
     (let sentences = take 5 (filter (\<lambda>s. length (trim s) > 20) (splitSentences [] processText))
      in if length sentences > 0 then joinWith (js ''. '') sentences @ js ''.''
         else js ''No summary available.'')"

text \<open>\<open>Array.from(new Set(xs))\<close>: the first occurrence of every element, in order.\<close>

fun dedupe :: "'a list \<Rightarrow> 'a list \<Rightarrow> 'a list" where
  "dedupe seen [] = []"
| "dedupe seen (x # xs) = (if x \<in> set seen then dedupe seen xs else x # dedupe (x # seen) xs)"

section \<open>\<open>server/gemini.ts\<close>\<close>

fun promise_map :: "('a \<Rightarrow> 'b) \<Rightarrow> 'a promise \<Rightarrow> 'b promise" where
  "promise_map f (Settles t (Inr a)) = Settles t (Inr (f a))"
| "promise_map f (Settles t (Inl e)) = Settles t (Inl e)"
| "promise_map f Never = Never"

definition isGeminiConfigured :: "env \<Rightarrow> bool" where
  "isGeminiConfigured E \<longleftrightarrow> apiKey E \<noteq> None \<and> apiKey E \<noteq> Some []"

definition generateDocumentSummary :: "env \<Rightarrow> jsstring \<Rightarrow> jsstring promise" where
  "generateDocumentSummary E t =
     generateContent E (js ''Summarize the following text:'' @ [0xA, 0xA] @ t)"

definition extractKeywords :: "env \<Rightarrow> jsstring \<Rightarrow> jsstring list promise" where
  "extractKeywords E t =
     promise_map (\<lambda>r. map trim (splitComma [] r))
       (generateContent E
          (js (''Extract the most important keywords from the following text. ''
               @ ''Return them as a comma-separated list:'') @ [0xA, 0xA] @ t))"

section \<open>The processing pipeline\<close>

definition spawn :: "job \<Rightarrow> unit prog" where
  "spawn j = bind (emit (EvSpawn j)) (\<lambda>_. \<lambda>s. (Inr (), s\<lparr>jobs := jobs s @ [j]\<rparr>))"

definition upd :: "string option \<Rightarrow> int option \<Rightarrow> doc_update" where
  "upd st pr =
     \<lparr>upd_status = st, upd_processingProgress = pr, upd_processedAt = None,
      upd_pageCount = None\<rparr>"

definition maxTextLength :: nat where
  "maxTextLength = 50000"

text \<open>
  The three values \<open>processDocument\<close> derives from the parser's answer:
  \<open>pdfData.text || ""\<close>, \<open>pdfData.numpages || 1\<close>, and the text cut to
  \<open>maxTextLength\<close> code units when it is longer.
\<close>

definition text_of :: "pdf_data \<Rightarrow> jsstring" where
  "text_of pdfData = (case pdf_text pdfData of None \<Rightarrow> [] | Some t \<Rightarrow> t)"

definition pages_of :: "pdf_data \<Rightarrow> int" where
  "pages_of pdfData =
     (case numpages pdfData of None \<Rightarrow> 1 | Some n \<Rightarrow> if n = 0 then 1 else n)"

definition process_text :: "jsstring \<Rightarrow> jsstring" where
  "process_text text =
     (if length text > maxTextLength then substring0 text maxTextLength else text)"

text \<open>
  \<open>Promise.all([storage.createPage(..), getTextStatistics(processText)])\<close>: the page
  insert is issued first, the statistics call second, and both run whatever the other
  does; the step fails when either fails.
\<close>

definition pageAndStatistics :: "env \<Rightarrow> page \<Rightarrow> jsstring \<Rightarrow> text_statistics prog" where
  "pageAndStatistics E pg processText =
     (\<lambda>s. case createPage E pg s of
        (r1, s1) \<Rightarrow>
          (case emit (EvTextStatistics processText) s1 of
             (_, s2) \<Rightarrow>
               (case r1 of
                  Inl e \<Rightarrow> (Inl e, s2)
                | Inr _ \<Rightarrow> (getTextStatistics E processText, s2))))"

definition nlpStep :: "env \<Rightarrow> jsstring \<Rightarrow> entity list \<times> jsstring list" where
  "nlpStep E processText =
     (case withTimeout
             (promise_all2 (extractEntities E processText)
                (extractKeywordsFromText E processText))
             10000 ''NLP processing timed out'' of
        Inl _ \<Rightarrow> ([], [])
      | Inr r \<Rightarrow> r)"

definition processDocument_try :: "env \<Rightarrow> string \<Rightarrow> string \<Rightarrow> unit prog" where
  "processDocument_try E documentId filePath =
     bind (updateDocument E SProgress10 documentId (upd (Some ''processing'') (Some 10))) (\<lambda>_.
     bind (readFileSync E filePath) (\<lambda>dataBuffer.
     bind (emit (EvPdfParse dataBuffer 30000)) (\<lambda>_.
     bind (lift (withTimeout (pdfParse E dataBuffer) 30000
                   ''PDF parsing timed out after 30 seconds'')) (\<lambda>pdfData.
     let text = text_of pdfData;
         pageCnt = pages_of pdfData
     in
     bind (updateDocument E SProgress25 documentId (upd None (Some 25))) (\<lambda>_.
     let processText = process_text text in
     bind (pageAndStatistics E
             \<lparr>pg_documentId = documentId, pageNumber = 1, extractedText = text,
              ocrConfidence = 1\<rparr>
             processText) (\<lambda>stats.
     bind (updateDocument E SProgress40 documentId (upd None (Some 40))) (\<lambda>_.
     bind (emit (EvNlp processText 10000)) (\<lambda>_.
     let nlp = nlpStep E processText in
     bind (updateDocument E SProgress60 documentId (upd None (Some 60))) (\<lambda>_.
     let anl =
           \<lparr>summary = quickSummary processText,
            keywordsList = take 15 (snd nlp),
            entities = fst nlp,
            tables = [],
            wordCount = st_wordCount stats,
            characterCount = st_characterCount stats\<rparr>
     in
     bind (createExtraction E
             \<lparr>ext_oid = [], ext_documentId = documentId, extractionType = ''analysis'',
              ext_data = anl\<rparr>) (\<lambda>_.
     bind (updateDocument E SMarkCompleted documentId
             \<lparr>upd_status = Some ''completed'', upd_processingProgress = Some 100,
              upd_processedAt = Some (now E), upd_pageCount = Some pageCnt\<rparr>) (\<lambda>_.
     if isGeminiConfigured E then spawn (JobEnhance documentId text) else ret ())))))))))))"

definition processDocument :: "env \<Rightarrow> string \<Rightarrow> string \<Rightarrow> unit prog" where
  "processDocument E documentId filePath =
     bind (emit (EvProcessDocument documentId filePath)) (\<lambda>_.
     catch (processDocument_try E documentId filePath) (\<lambda>e.
       bind (updateDocument E SMarkError documentId (upd (Some ''error'') (Some (- 1))))
         (\<lambda>_. throw e)))"

definition mergedKeywords :: "jsstring list \<Rightarrow> jsstring list \<Rightarrow> jsstring list" where
  "mergedKeywords aiKeywords old = dedupe [] (aiKeywords @ old)"

definition enhance_try :: "env \<Rightarrow> string \<Rightarrow> jsstring \<Rightarrow> unit prog" where
  "enhance_try E documentId text =
     (let textForAI = (if length text > 5000 then substring0 text 5000 else text) in
      bind (emit (EvAiCall textForAI 45000)) (\<lambda>_.
      bind (lift (withTimeout
                    (promise_all2 (generateDocumentSummary E textForAI)
                       (extractKeywords E textForAI))
                    45000 ''AI enhancement timed out after 45 seconds'')) (\<lambda>r.
      bind (\<lambda>s. (getExtraction E (extractions s) documentId ''analysis'', s)) (\<lambda>existing.
        case existing of
          None \<Rightarrow> ret ()
        | Some x \<Rightarrow>
            (let a = (ext_data x)
                       \<lparr>summary := fst r,
                        keywordsList := take 15 (mergedKeywords (snd r) (keywordsList (ext_data x)))\<rparr>
             in
             bind (emit (EvUpdateExtraction (ext_oid x) a)) (\<lambda>_. \<lambda>s.
               case updateExtraction E (extractions s) (ext_oid x) a of
                 Inl e \<Rightarrow> (Inl e, s)
               | Inr xs \<Rightarrow> (Inr (), s\<lparr>extractions := xs\<rparr>)))))))"

definition enhanceAnalysisWithAI :: "env \<Rightarrow> string \<Rightarrow> jsstring \<Rightarrow> unit prog" where
  "enhanceAnalysisWithAI E documentId text =
     catch (enhance_try E documentId text) (\<lambda>e. ret ())"

text \<open>
  The calls started without \<open>await\<close> run after the handler that started them has
  answered. The \<open>.catch\<close> of the upload and retry routes writes once more and does not
  wait for that write.
\<close>

definition unawaited :: "'a prog \<Rightarrow> unit prog" where
  "unawaited m = (\<lambda>s. (Inr (), snd (m s)))"

fun run_job :: "env \<Rightarrow> job \<Rightarrow> unit prog" where
  "run_job E (JobProcess i p UploadCatch) =
     catch (processDocument E i p) (\<lambda>e.
       unawaited (updateDocument E SUploadMarkError i (upd (Some ''error'') None)))"
| "run_job E (JobProcess i p RetryCatch) =
     catch (processDocument E i p) (\<lambda>e.
       unawaited (updateDocument E SRetryMarkError i (upd (Some ''error'') (Some (- 1)))))"
| "run_job E (JobEnhance i t) = catch (enhanceAnalysisWithAI E i t) (\<lambda>e. ret ())"

section \<open>The routes\<close>

datatype body =
    Message string
  | DocumentBody document
  | DocumentDetail document "extraction list" jsstring
  | RetryBody string string
  | MessagesBody "chat_message list"
  | ChatMessageBody chat_message

datatype response = Response nat body | MiddlewareError error

type_synonym handler = "world \<Rightarrow> response \<times> world"

text \<open>The \<open>try { .. } catch (error) { res.status(500).json(..) }\<close> around every route.\<close>

definition route :: "string \<Rightarrow> response prog \<Rightarrow> handler" where
  "route failure m =
     (\<lambda>s. case m s of
        (Inl e, s') \<Rightarrow> (Response 500 (Message failure), s')
      | (Inr r, s') \<Rightarrow> (r, s'))"

definition getDocumentRoute :: "env \<Rightarrow> string \<Rightarrow> string \<Rightarrow> handler" where
  "getDocumentRoute E sub docId =
     route ''Failed to fetch document''
       (if docId = [] \<or> docId = ''undefined'' \<or> docId = ''null''
        then ret (Response 400 (Message ''Invalid document ID''))
        else
          bind (getDocumentWithExtractions E docId) (\<lambda>doc.
            case doc of
              None \<Rightarrow> ret (Response 404 (Message ''Document not found''))
            | Some (d, xs, t) \<Rightarrow>
                if userId d \<noteq> sub then ret (Response 403 (Message ''Access denied''))
                else ret (Response 200 (DocumentDetail d xs t))))"

subsection \<open>Upload\<close>

definition fileSizeLimit :: nat where
  "fileSizeLimit = 100 * 1024 * 1024"

definition fileFilter :: "upload_part \<Rightarrow> error + bool" where
  "fileFilter file =
     (if part_mimetype file = ''application/pdf'' then Inr True
      else Inl (ErrorMsg ''Only PDF files are allowed''))"

text \<open>
  \<open>upload.single("file")\<close>, as multer documents it: the filter sees the part first, a part
  longer than \<open>limits.fileSize\<close> bytes is refused, and an accepted part is written under
  the name the \<open>filename\<close> callback gives it. A request without a file part goes through
  with \<open>req.file\<close> undefined.
\<close>

definition upload_single :: "env \<Rightarrow> upload_part option \<Rightarrow> multer_file option prog" where
  "upload_single E part =
     (case part of
        None \<Rightarrow> ret None
      | Some file \<Rightarrow>
          (case fileFilter file of
             Inl e \<Rightarrow> throw e
           | Inr _ \<Rightarrow>
               if length (part_content file) > fileSizeLimit
               then throw (ErrorMsg ''File too large'')
               else
                 (let name = uniqueSuffix E @ extname E (part_originalname file);
                      p = path_join (uploadDir E) name
                  in (\<lambda>s. (Inr (Some \<lparr>mf_filename = name,
                                        mf_originalname = part_originalname file,
                                        mf_mimetype = part_mimetype file,
                                        mf_size = length (part_content file),
                                        mf_path = p\<rparr>),
                            s\<lparr>files := (files s)(p \<mapsto> part_content file)\<rparr>)))))"

definition uploadHandler :: "env \<Rightarrow> string \<Rightarrow> multer_file option \<Rightarrow> handler" where
  "uploadHandler E sub reqFile =
     route ''Failed to upload document''
       (case reqFile of
          None \<Rightarrow> ret (Response 400 (Message ''No file uploaded''))
        | Some file \<Rightarrow>
            bind (createDocument E
                    \<lparr>oid = [], userId = sub, filename = mf_filename file,
                     originalName = mf_originalname file, mimeType = mf_mimetype file,
                     fileSize = mf_size file, status = ''processing'',
                     processingProgress = None, pageCount = None, processedAt = None,
                     uploadDate = None\<rparr>) (\<lambda>doc.
            bind (spawn (JobProcess (oid doc) (mf_path file) UploadCatch)) (\<lambda>_.
              ret (Response 200 (DocumentBody doc)))))"

definition uploadRoute :: "env \<Rightarrow> string \<Rightarrow> upload_part option \<Rightarrow> handler" where
  "uploadRoute E sub part =
     (\<lambda>s. case upload_single E part s of
        (Inl e, s') \<Rightarrow> (MiddlewareError e, s')
      | (Inr reqFile, s') \<Rightarrow> uploadHandler E sub reqFile s')"

subsection \<open>Delete and retry\<close>

definition deleteRoute :: "env \<Rightarrow> string \<Rightarrow> string \<Rightarrow> handler" where
  "deleteRoute E sub i =
     route ''Failed to delete document''
       (bind (getDocument E i) (\<lambda>doc.
          case doc of
            None \<Rightarrow> ret (Response 404 (Message ''Document not found''))
          | Some d \<Rightarrow>
              if userId d \<noteq> sub then ret (Response 403 (Message ''Access denied''))
              else
                (let filePath = path_join (uploadDir E) (filename d) in
                 bind (\<lambda>s. if existsSync s filePath then unlinkSync E filePath s
                           else (Inr (), s)) (\<lambda>_.
                 bind (deleteDocument E i) (\<lambda>_.
                   ret (Response 200 (Message ''Document deleted'')))))))"

definition retryRoute :: "env \<Rightarrow> string \<Rightarrow> string \<Rightarrow> handler" where
  "retryRoute E sub i =
     route ''Failed to retry document''
       (bind (getDocument E i) (\<lambda>doc.
          case doc of
            None \<Rightarrow> ret (Response 404 (Message ''Document not found''))
          | Some d \<Rightarrow>
              if userId d \<noteq> sub then ret (Response 403 (Message ''Access denied''))
              else
                (let filePath = path_join (uploadDir E) (filename d) in
                 bind (\<lambda>s. (Inr (existsSync s filePath), s)) (\<lambda>there.
                   if \<not> there
                   then ret (Response 404 (Message ''Document file not found''))
                   else
                     bind (updateDocument E SRetryReset i
                             (upd (Some ''processing'') (Some 0))) (\<lambda>_.
                     bind (spawn (JobProcess (oid d) filePath RetryCatch)) (\<lambda>_.
                       ret (Response 200
                              (RetryBody ''Document reprocessing started''
                                 ''processing''))))))))"

subsection \<open>Chat\<close>

definition getChatRoute :: "env \<Rightarrow> string \<Rightarrow> string \<Rightarrow> handler" where
  "getChatRoute E sub documentId =
     route ''Failed to fetch chat messages''
       (bind (getDocument E documentId) (\<lambda>doc.
          case doc of
            None \<Rightarrow> ret (Response 404 (Message ''Document not found''))
          | Some d \<Rightarrow>
              if userId d \<noteq> sub then ret (Response 403 (Message ''Access denied''))
              else
                bind (getChatMessages E documentId) (\<lambda>messages.
                  ret (Response 200 (MessagesBody messages)))))"

text \<open>A body field is falsy when it is missing or the empty string.\<close>

definition falsy :: "'a list option \<Rightarrow> bool" where
  "falsy v \<longleftrightarrow> v = None \<or> v = Some []"

definition slice_last :: "nat \<Rightarrow> 'a list \<Rightarrow> 'a list" where
  "slice_last n xs = drop (length xs - n) xs"

definition postChatRoute ::
  "env \<Rightarrow> string \<Rightarrow> string option \<Rightarrow> jsstring option \<Rightarrow> handler" where
  "postChatRoute E sub documentId content =
     route ''Failed to send message''
       (if falsy documentId \<or> falsy content
        then ret (Response 400 (Message ''Missing documentId or content''))
        else
          (let i = the documentId; c = the content in
           bind (getDocumentWithExtractions E i) (\<lambda>doc.
             case doc of
               None \<Rightarrow> ret (Response 404 (Message ''Document not found''))
             | Some (d, xs, extracted) \<Rightarrow>
                 if userId d \<noteq> sub then ret (Response 403 (Message ''Access denied''))
                 else
                   bind (createChatMessage E SCreateUserMessage
                           \<lparr>msg_oid = [], msg_documentId = i, msg_userId = sub,
                            msg_role = ''user'', msg_content = c\<rparr>) (\<lambda>_.
                   bind (getChatMessages E i) (\<lambda>chatHistory.
                   let historyForAI =
                         map (\<lambda>m. (msg_role m, msg_content m)) (slice_last 10 chatHistory);
                       aiResponse =
                         (case generateChatResponse E
                                 (if extracted = []
                                  then js ''No text extracted from document.''
                                  else extracted)
                                 c historyForAI of
                            Inl _ \<Rightarrow>
                              js (''I'' @ [CHR 0x27] @ ''m sorry, I couldn'' @ [CHR 0x27]
                                  @ ''t process your question. Please try again.'')
                          | Inr r \<Rightarrow> r)
                   in
                   bind (createChatMessage E SCreateAssistantMessage
                           \<lparr>msg_oid = [], msg_documentId = i, msg_userId = sub,
                            msg_role = ''assistant'', msg_content = aiResponse\<rparr>)
                     (\<lambda>assistantMessage.
                        ret (Response 200 (ChatMessageBody assistantMessage))))))))"

section \<open>The sweep at startup\<close>

definition mockUserId :: string where
  "mockUserId = ''mock-user-id-123''"

text \<open>
  The callback of \<open>stuckDocuments.map\<close> runs for every document before any pipeline gets
  past its first \<open>await\<close>, so every \<open>existsSync\<close> sees the files as they are when the
  sweep starts. The calls then all run, whatever the others do; \<open>Promise.all\<close> only
  reports whether one of them failed.
\<close>

fun reprocessAll :: "env \<Rightarrow> (string \<times> string \<times> bool) list \<Rightarrow> world \<Rightarrow> bool \<times> world" where
  "reprocessAll E [] s = (True, s)"
| "reprocessAll E ((i, filePath, there) # rest) s =
     (case (if there then processDocument E i filePath
            else bind (updateDocument E SSweepMarkError i (upd (Some ''error'') None))
                   (\<lambda>_. ret ())) s of
        (r, s') \<Rightarrow>
          (case reprocessAll E rest s' of
             (ok, s'') \<Rightarrow> ((case r of Inl _ \<Rightarrow> False | Inr _ \<Rightarrow> ok), s'')))"

definition stuckDocuments :: "document list \<Rightarrow> document list" where
  "stuckDocuments docs = filter (\<lambda>doc. status doc = ''processing'') docs"

definition startupSweep :: "env \<Rightarrow> world \<Rightarrow> world" where
  "startupSweep E s =
     (case getDocuments E mockUserId s of
        (Inl e, s') \<Rightarrow> s'
      | (Inr docs, s') \<Rightarrow>
          (let stuck = stuckDocuments docs in
           if length stuck > 0
           then snd (reprocessAll E
                       (map (\<lambda>doc. (oid doc, path_join (uploadDir E) (filename doc),
                                    existsSync s' (path_join (uploadDir E) (filename doc))))
                          stuck)
                       s')
           else s'))"

section \<open>Everything the service can be asked to do\<close>

datatype request =
    ReqGetDocument string string
  | ReqUpload string "upload_part option"
  | ReqDelete string string
  | ReqRetry string string
  | ReqGetChat string string
  | ReqPostChat string "string option" "jsstring option"
  | ReqRunJob job
  | ReqStartup

fun perform :: "env \<Rightarrow> request \<Rightarrow> world \<Rightarrow> world" where
  "perform E (ReqGetDocument sub i) s = snd (getDocumentRoute E sub i s)"
| "perform E (ReqUpload sub part) s = snd (uploadRoute E sub part s)"
| "perform E (ReqDelete sub i) s = snd (deleteRoute E sub i s)"
| "perform E (ReqRetry sub i) s = snd (retryRoute E sub i s)"
| "perform E (ReqGetChat sub i) s = snd (getChatRoute E sub i s)"
| "perform E (ReqPostChat sub i c) s = snd (postChatRoute E sub i c s)"
| "perform E (ReqRunJob j) s = snd (run_job E j s)"
| "perform E ReqStartup s = startupSweep E s"

section \<open>Notions the properties are stated with\<close>

text \<open>What a program added to the trace.\<close>

definition new_events :: "world \<Rightarrow> world \<Rightarrow> event list" where
  "new_events s s' = drop (length (trace s)) (trace s')"

text \<open>A program only appends to the trace, and only events of one kind.\<close>

definition emits :: "(event \<Rightarrow> bool) \<Rightarrow> (world \<Rightarrow> 'r \<times> world) \<Rightarrow> bool" where
  "emits Q m \<longleftrightarrow> (\<forall>s. \<exists>evs. trace (snd (m s)) = trace s @ evs \<and> list_all Q evs)"

text \<open>Where the first event of a kind stands in a trace (its length when there is none).\<close>

definition position :: "(event \<Rightarrow> bool) \<Rightarrow> event list \<Rightarrow> nat" where
  "position P evs = length (takeWhile (\<lambda>e. \<not> P e) evs)"

primrec is_page_save :: "event \<Rightarrow> bool" where
  "is_page_save (EvCreateDocument d) = False"
| "is_page_save (EvUpdateDocument i u) = False"
| "is_page_save (EvDeleteDocument i) = False"
| "is_page_save (EvProcessDocument i p) = False"
| "is_page_save (EvReadFile p) = False"
| "is_page_save (EvUnlink p) = False"
| "is_page_save (EvPdfParse b n) = False"
| "is_page_save (EvCreatePage p) = True"
| "is_page_save (EvTextStatistics t) = False"
| "is_page_save (EvNlp t n) = False"
| "is_page_save (EvCreateExtraction x) = False"
| "is_page_save (EvUpdateExtraction i a) = False"
| "is_page_save (EvAiCall t n) = False"
| "is_page_save (EvCreateChatMessage m) = False"
| "is_page_save (EvSpawn j) = False"

primrec is_statistics :: "event \<Rightarrow> bool" where
  "is_statistics (EvCreateDocument d) = False"
| "is_statistics (EvUpdateDocument i u) = False"
| "is_statistics (EvDeleteDocument i) = False"
| "is_statistics (EvProcessDocument i p) = False"
| "is_statistics (EvReadFile p) = False"
| "is_statistics (EvUnlink p) = False"
| "is_statistics (EvPdfParse b n) = False"
| "is_statistics (EvCreatePage p) = False"
| "is_statistics (EvTextStatistics t) = True"
| "is_statistics (EvNlp t n) = False"
| "is_statistics (EvCreateExtraction x) = False"
| "is_statistics (EvUpdateExtraction i a) = False"
| "is_statistics (EvAiCall t n) = False"
| "is_statistics (EvCreateChatMessage m) = False"
| "is_statistics (EvSpawn j) = False"

text \<open>The field values a document write may carry.\<close>

definition valid_status :: "string \<Rightarrow> bool" where
  "valid_status v \<longleftrightarrow> v = ''processing'' \<or> v = ''completed'' \<or> v = ''error''"

definition written_progress :: "int \<Rightarrow> bool" where
  "written_progress p \<longleftrightarrow> p = - 1 \<or> p = 0 \<or> p = 10 \<or> p = 25 \<or> p = 40 \<or> p = 60 \<or> p = 100"

definition valid_progress :: "int \<Rightarrow> bool" where
  "valid_progress p \<longleftrightarrow> p = - 1 \<or> (0 \<le> p \<and> p \<le> 100)"

definition opt_all :: "('a \<Rightarrow> bool) \<Rightarrow> 'a option \<Rightarrow> bool" where
  "opt_all P v = (case v of None \<Rightarrow> True | Some x \<Rightarrow> P x)"

primrec doc_write_ok :: "event \<Rightarrow> bool" where
  "doc_write_ok (EvCreateDocument d) =
     (valid_status (status d)
      \<and> opt_all (\<lambda>p. valid_progress p \<and> written_progress p) (processingProgress d))"
| "doc_write_ok (EvUpdateDocument i u) =
     (opt_all valid_status (upd_status u)
      \<and> opt_all (\<lambda>p. valid_progress p \<and> written_progress p) (upd_processingProgress u))"
| "doc_write_ok (EvDeleteDocument i) = True"
| "doc_write_ok (EvProcessDocument i p) = True"
| "doc_write_ok (EvReadFile p) = True"
| "doc_write_ok (EvUnlink p) = True"
| "doc_write_ok (EvPdfParse b n) = True"
| "doc_write_ok (EvCreatePage p) = True"
| "doc_write_ok (EvTextStatistics t) = True"
| "doc_write_ok (EvNlp t n) = True"
| "doc_write_ok (EvCreateExtraction x) = True"
| "doc_write_ok (EvUpdateExtraction i a) = True"
| "doc_write_ok (EvAiCall t n) = True"
| "doc_write_ok (EvCreateChatMessage m) = True"
| "doc_write_ok (EvSpawn j) = True"

primrec extraction_write_ok :: "event \<Rightarrow> bool" where
  "extraction_write_ok (EvCreateDocument d) = True"
| "extraction_write_ok (EvUpdateDocument i u) = True"
| "extraction_write_ok (EvDeleteDocument i) = True"
| "extraction_write_ok (EvProcessDocument i p) = True"
| "extraction_write_ok (EvReadFile p) = True"
| "extraction_write_ok (EvUnlink p) = True"
| "extraction_write_ok (EvPdfParse b n) = True"
| "extraction_write_ok (EvCreatePage p) = True"
| "extraction_write_ok (EvTextStatistics t) = True"
| "extraction_write_ok (EvNlp t n) = True"
| "extraction_write_ok (EvCreateExtraction x) = (length (keywordsList (ext_data x)) \<le> 15)"
| "extraction_write_ok (EvUpdateExtraction i a) = (length (keywordsList a) \<le> 15)"
| "extraction_write_ok (EvAiCall t n) = True"
| "extraction_write_ok (EvCreateChatMessage m) = True"
| "extraction_write_ok (EvSpawn j) = True"

text \<open>The pipeline runs a trace starts, and the documents the sweep gives up on.\<close>

primrec process_start :: "event \<Rightarrow> (string \<times> string) option" where
  "process_start (EvCreateDocument d) = None"
| "process_start (EvUpdateDocument i u) = None"
| "process_start (EvDeleteDocument i) = None"
| "process_start (EvProcessDocument i p) = Some (i, p)"
| "process_start (EvReadFile p) = None"
| "process_start (EvUnlink p) = None"
| "process_start (EvPdfParse b n) = None"
| "process_start (EvCreatePage p) = None"
| "process_start (EvTextStatistics t) = None"
| "process_start (EvNlp t n) = None"
| "process_start (EvCreateExtraction x) = None"
| "process_start (EvUpdateExtraction i a) = None"
| "process_start (EvAiCall t n) = None"
| "process_start (EvCreateChatMessage m) = None"
| "process_start (EvSpawn j) = None"

definition process_starts :: "event list \<Rightarrow> (string \<times> string) list" where
  "process_starts evs = List.map_filter process_start evs"

primrec sweep_mark :: "event \<Rightarrow> string option" where
  "sweep_mark (EvCreateDocument d) = None"
| "sweep_mark (EvUpdateDocument i u) = (if u = upd (Some ''error'') None then Some i else None)"
| "sweep_mark (EvDeleteDocument i) = None"
| "sweep_mark (EvProcessDocument i p) = None"
| "sweep_mark (EvReadFile p) = None"
| "sweep_mark (EvUnlink p) = None"
| "sweep_mark (EvPdfParse b n) = None"
| "sweep_mark (EvCreatePage p) = None"
| "sweep_mark (EvTextStatistics t) = None"
| "sweep_mark (EvNlp t n) = None"
| "sweep_mark (EvCreateExtraction x) = None"
| "sweep_mark (EvUpdateExtraction i a) = None"
| "sweep_mark (EvAiCall t n) = None"
| "sweep_mark (EvCreateChatMessage m) = None"
| "sweep_mark (EvSpawn j) = None"

definition sweep_marks :: "event list \<Rightarrow> string list" where
  "sweep_marks evs = List.map_filter sweep_mark evs"

definition quiet :: "event \<Rightarrow> bool" where
  "quiet e \<longleftrightarrow> process_start e = None \<and> sweep_mark e = None"

text \<open>The documents the sweep looks at, and where it expects a document's file.\<close>

definition stuck_of :: "world \<Rightarrow> document list" where
  "stuck_of s =
     stuckDocuments (sort_key uploadRank (filter (\<lambda>d. userId d = mockUserId) (documents s)))"

definition doc_path :: "env \<Rightarrow> document \<Rightarrow> string" where
  "doc_path E d = path_join (uploadDir E) (filename d)"

definition lookup :: "string \<Rightarrow> world \<Rightarrow> document option" where
  "lookup i s = find (\<lambda>d. oid d = i) (documents s)"

definition doc_ids :: "world \<Rightarrow> string list" where
  "doc_ids s = map oid (documents s)"

text \<open>A program leaves the documents' ids as they are.\<close>

definition keeps_ids :: "(world \<Rightarrow> 'r \<times> world) \<Rightarrow> bool" where
  "keeps_ids m \<longleftrightarrow> (\<forall>s. doc_ids (snd (m s)) = doc_ids s)"

text \<open>The NLP module swapped for another.\<close>

definition with_nlp ::
  "env \<Rightarrow> (jsstring \<Rightarrow> entity list promise) \<Rightarrow> (jsstring \<Rightarrow> jsstring list promise) \<Rightarrow> env" where
  "with_nlp E ee ek = E\<lparr>extractEntities := ee, extractKeywordsFromText := ek\<rparr>"

text \<open>When every step of the pipeline but the NLP step goes through.\<close>

definition pipeline_sites :: "site list" where
  "pipeline_sites =
     [SProgress10, SProgress25, SCreatePage, SProgress40, SProgress60, SCreateExtraction,
      SMarkCompleted]"

definition parsed :: "env \<Rightarrow> world \<Rightarrow> string \<Rightarrow> pdf_data option" where
  "parsed E s filePath =
     (case files s filePath of
        None \<Rightarrow> None
      | Some b \<Rightarrow>
          if fails E FReadFile filePath then None
          else (case withTimeout (pdfParse E b) 30000
                       ''PDF parsing timed out after 30 seconds'' of
                  Inl e \<Rightarrow> None
                | Inr d \<Rightarrow> Some d))"

definition goes_through :: "env \<Rightarrow> world \<Rightarrow> string \<Rightarrow> string \<Rightarrow> bool" where
  "goes_through E s documentId filePath \<longleftrightarrow>
     validObjectId E documentId
     \<and> list_all (\<lambda>st. \<not> fails E st documentId) pipeline_sites
     \<and> (case parsed E s filePath of
          None \<Rightarrow> False
        | Some d \<Rightarrow>
            (case getTextStatistics E (process_text (text_of d)) of
               Inl e \<Rightarrow> False
             | Inr st \<Rightarrow> True))"

text \<open>
  The pieces of a text between maximal runs of sentence terminators, told by what stands
  before and after the first run; and the summary made of such pieces: the first five
  whose trimmed length exceeds 20, joined by a full stop and a blank, with a full stop at
  the end.
\<close>

function sentence_pieces :: "jsstring \<Rightarrow> jsstring list" where
  "sentence_pieces t =
     (if dropWhile (\<lambda>c. \<not> isTerminator c) t = []
      then [takeWhile (\<lambda>c. \<not> isTerminator c) t]
      else takeWhile (\<lambda>c. \<not> isTerminator c) t
           # sentence_pieces (dropWhile isTerminator (dropWhile (\<lambda>c. \<not> isTerminator c) t)))"
  by pat_completeness auto
termination
proof (relation "measure length")
  show "wf (measure length)" by simp
next
  fix t :: jsstring
  let ?rest = "dropWhile (\<lambda>c. \<not> isTerminator c) t"
  assume ne: "?rest \<noteq> []"
  then have "isTerminator (hd ?rest)"
    using hd_dropWhile[of "\<lambda>c. \<not> isTerminator c" t] by simp
  then have "dropWhile isTerminator ?rest = dropWhile isTerminator (tl ?rest)"
    using ne by (cases ?rest) simp_all
  then have "length (dropWhile isTerminator ?rest) \<le> length (tl ?rest)"
    using length_dropWhile_le[of isTerminator "tl ?rest"] by simp
  also have "\<dots> < length ?rest" using ne by simp
  also have "\<dots> \<le> length t" by (rule length_dropWhile_le)
  finally show "(dropWhile isTerminator ?rest, t) \<in> measure length" by simp
qed

declare sentence_pieces.simps [simp del]

definition summary_of :: "jsstring list \<Rightarrow> jsstring" where
  "summary_of pieces =
     (if filter (\<lambda>p. 20 < length (trim p)) pieces = [] then js ''No summary available.''
      else joinWith (js ''. '') (take 5 (filter (\<lambda>p. 20 < length (trim p)) pieces)) @ js ''.'')"

text \<open>Both NLP calls answer, each in less than the 10000 ms of their timeout.\<close>

definition nlp_in_time :: "env \<Rightarrow> jsstring \<Rightarrow> bool" where
  "nlp_in_time E t \<longleftrightarrow>
     (\<exists>es ks t1 t2. extractEntities E t = Settles t1 (Inr es)
        \<and> extractKeywordsFromText E t = Settles t2 (Inr ks) \<and> t1 < 10000 \<and> t2 < 10000)"

text \<open>What a run that goes through writes.\<close>

definition completed_update :: "env \<Rightarrow> int \<Rightarrow> doc_update" where
  "completed_update E n =
     \<lparr>upd_status = Some ''completed'', upd_processingProgress = Some 100,
      upd_processedAt = Some (now E), upd_pageCount = Some n\<rparr>"

definition pipeline_page :: "string \<Rightarrow> jsstring \<Rightarrow> page" where
  "pipeline_page i t =
     \<lparr>pg_documentId = i, pageNumber = 1, extractedText = t, ocrConfidence = 1\<rparr>"

definition pipeline_extraction ::
  "env \<Rightarrow> string \<Rightarrow> string \<Rightarrow> jsstring \<Rightarrow> text_statistics \<Rightarrow> extraction" where
  "pipeline_extraction E k i pt st =
     \<lparr>ext_oid = k, ext_documentId = i, extractionType = ''analysis'',
      ext_data =
        \<lparr>summary = quickSummary pt, keywordsList = take 15 (snd (nlpStep E pt)),
         entities = fst (nlpStep E pt), tables = [], wordCount = st_wordCount st,
         characterCount = st_characterCount st\<rparr>\<rparr>"

text \<open>
  The calls of a run that goes through, in the order the source issues them; the last one
  only with an API key.
\<close>

definition pipeline_calls ::
  "env \<Rightarrow> world \<Rightarrow> string \<Rightarrow> string \<Rightarrow> buffer \<Rightarrow> pdf_data \<Rightarrow> text_statistics \<Rightarrow> event list" where
  "pipeline_calls E s i p b d st =
     [EvProcessDocument i p,
      EvUpdateDocument i (upd (Some ''processing'') (Some 10)),
      EvReadFile p,
      EvPdfParse b 30000,
      EvUpdateDocument i (upd None (Some 25)),
      EvCreatePage (pipeline_page i (text_of d)),
      EvTextStatistics (process_text (text_of d)),
      EvUpdateDocument i (upd None (Some 40)),
      EvNlp (process_text (text_of d)) 10000,
      EvUpdateDocument i (upd None (Some 60)),
      EvCreateExtraction
        (pipeline_extraction E (newObjectId E (Suc (nextOid s))) i (process_text (text_of d)) st),
      EvUpdateDocument i (completed_update E (pages_of d))]
     @ (if isGeminiConfigured E then [EvSpawn (JobEnhance i (text_of d))] else [])"

definition expected_calls :: "env \<Rightarrow> world \<Rightarrow> string \<Rightarrow> string \<Rightarrow> event list" where
  "expected_calls E s i p =
     (case files s p of
        None \<Rightarrow> []
      | Some b \<Rightarrow>
          (case parsed E s p of
             None \<Rightarrow> []
           | Some d \<Rightarrow>
               (case getTextStatistics E (process_text (text_of d)) of
                  Inl e \<Rightarrow> []
                | Inr st \<Rightarrow> pipeline_calls E s i p b d st)))"

definition expected_jobs :: "env \<Rightarrow> world \<Rightarrow> string \<Rightarrow> string \<Rightarrow> job list" where
  "expected_jobs E s i p =
     (case parsed E s p of
        None \<Rightarrow> []
      | Some d \<Rightarrow> if isGeminiConfigured E then [JobEnhance i (text_of d)] else [])"

primrec is_spawn :: "event \<Rightarrow> bool" where
  "is_spawn (EvCreateDocument d) = False"
| "is_spawn (EvUpdateDocument i u) = False"
| "is_spawn (EvDeleteDocument i) = False"
| "is_spawn (EvProcessDocument i p) = False"
| "is_spawn (EvReadFile p) = False"
| "is_spawn (EvUnlink p) = False"
| "is_spawn (EvPdfParse b n) = False"
| "is_spawn (EvCreatePage p) = False"
| "is_spawn (EvTextStatistics t) = False"
| "is_spawn (EvNlp t n) = False"
| "is_spawn (EvCreateExtraction x) = False"
| "is_spawn (EvUpdateExtraction i a) = False"
| "is_spawn (EvAiCall t n) = False"
| "is_spawn (EvCreateChatMessage m) = False"
| "is_spawn (EvSpawn j) = True"

text \<open>The AI provider and the extraction accessors swapped for others.\<close>

definition with_ai ::
  "env \<Rightarrow> (jsstring \<Rightarrow> jsstring promise)
     \<Rightarrow> (extraction list \<Rightarrow> string \<Rightarrow> string \<Rightarrow> error + extraction option)
     \<Rightarrow> (extraction list \<Rightarrow> string \<Rightarrow> analysis \<Rightarrow> error + extraction list) \<Rightarrow> env" where
  "with_ai E g ge ue = E\<lparr>generateContent := g, getExtraction := ge, updateExtraction := ue\<rparr>"

text \<open>The name multer stores an upload under, and the record the upload route inserts.\<close>

definition stored_name :: "env \<Rightarrow> upload_part \<Rightarrow> string" where
  "stored_name E f = uniqueSuffix E @ extname E (part_originalname f)"

definition uploaded_doc :: "env \<Rightarrow> world \<Rightarrow> string \<Rightarrow> upload_part \<Rightarrow> document" where
  "uploaded_doc E s sub f =
     \<lparr>oid = newObjectId E (nextOid s), userId = sub, filename = stored_name E f,
      originalName = part_originalname f, mimeType = part_mimetype f,
      fileSize = length (part_content f), status = ''processing'',
      processingProgress = None, pageCount = None, processedAt = None, uploadDate = None\<rparr>"

text \<open>The two refusals of the per-document routes, with the world as it was.\<close>

definition denied :: "world \<Rightarrow> response \<times> world" where
  "denied s = (Response 403 (Message ''Access denied''), s)"

definition not_found :: "world \<Rightarrow> response \<times> world" where
  "not_found s = (Response 404 (Message ''Document not found''), s)"

section \<open>A small installation, for concrete runs\<close>

text \<open>
  One user's document with its file and its analysis; a driver that never fails; a parser
  that returns five words on two pages at once; no AI key, and an AI provider that never
  answers; the storage class of the repository, without the two extraction accessors.
\<close>

definition example_text :: jsstring where
  "example_text = js ''Invoices are due within thirty days. Late fees apply.''"

definition example_doc :: document where
  "example_doc =
     \<lparr>oid = ''d1'', userId = ''alice'', filename = ''1-1.pdf'', originalName = ''a.pdf'',
      mimeType = ''application/pdf'', fileSize = 3, status = ''processing'',
      processingProgress = None, pageCount = None, processedAt = None, uploadDate = None\<rparr>"

definition example_extraction :: extraction where
  "example_extraction =
     \<lparr>ext_oid = ''x1'', ext_documentId = ''d1'', extractionType = ''analysis'',
      ext_data = \<lparr>summary = js ''old'', keywordsList = [js ''invoice''], entities = [],
                  tables = [], wordCount = 9, characterCount = 53\<rparr>\<rparr>"

definition example_world :: world where
  "example_world =
     \<lparr>documents = [example_doc], pages = [], extractions = [example_extraction],
      chatMessages = [], files = [''/app/uploads/1-1.pdf'' \<mapsto> [37, 80, 68]], jobs = [],
      trace = [], nextOid = 0\<rparr>"

definition example_env :: env where
  "example_env =
     \<lparr>fails = (\<lambda>st i. False),
      validObjectId = (\<lambda>i. True),
      newObjectId = (\<lambda>n. ''new''),
      pdfParse = (\<lambda>b. Settles 120 (Inr \<lparr>pdf_text = Some example_text, numpages = Some 2\<rparr>)),
      getTextStatistics = (\<lambda>t. Inr \<lparr>st_wordCount = 9, st_characterCount = length t\<rparr>),
      extractEntities = (\<lambda>t. Settles 5 (Inr [])),
      extractKeywordsFromText = (\<lambda>t. Settles 5 (Inr [js ''invoice''])),
      apiKey = None,
      generateContent = (\<lambda>t. Never),
      getExtraction = (\<lambda>xs i ty. Inl (TypeError ''storage.getExtraction is not a function'')),
      updateExtraction =
        (\<lambda>xs i a. Inl (TypeError ''storage.updateExtraction is not a function'')),
      generateChatResponse = (\<lambda>t q h. Inl Rejected),
      extname = (\<lambda>n. ''.pdf''),
      uniqueSuffix = ''1-1'',
      now = 1000,
      cwd = ''/app''\<rparr>"

definition example_path :: string where
  "example_path = ''/app/uploads/1-1.pdf''"

definition example_pdf :: pdf_data where
  "example_pdf = \<lparr>pdf_text = Some example_text, numpages = Some 2\<rparr>"

definition example_stats :: text_statistics where
  "example_stats = \<lparr>st_wordCount = 9, st_characterCount = 53\<rparr>"

text \<open>
  The same installation with an API key; and one whose parser returns a report of more
  than 50000 code units (a heading, a short and a long sentence, 49933 letters, and a tail
  after the cut),
  with an NLP module that answers with the end of the text it was given.
\<close>

definition example_env_ai :: env where
  "example_env_ai = example_env\<lparr>apiKey := Some ''key''\<rparr>"

definition report_head :: jsstring where
  "report_head = js ''Note?        Only a few words. The quarterly report follows below! ''"

definition report_body :: jsstring where
  "report_body = replicate 49933 0x61"

definition report_tail :: jsstring where
  "report_tail = js ''. The tail is cut off before the analysis.''"

definition report_text :: jsstring where
  "report_text = report_head @ report_body @ report_tail"

definition report_pdf :: pdf_data where
  "report_pdf = \<lparr>pdf_text = Some report_text, numpages = Some 1\<rparr>"

definition example_env_report :: env where
  "example_env_report =
     example_env
       \<lparr>pdfParse := (\<lambda>b. Settles 120 (Inr report_pdf)),
        extractEntities := (\<lambda>t. Settles 5 (Inr [drop 49998 t])),
        extractKeywordsFromText := (\<lambda>t. Settles 5 (Inr (replicate 20 (drop 49999 t))))\<rparr>"

text \<open>One whose entity extraction rejects, and one whose parser takes 45 seconds.\<close>

definition example_env_nlp :: env where
  "example_env_nlp = example_env\<lparr>extractEntities := (\<lambda>t. Settles 5 (Inl Rejected))\<rparr>"

definition example_env_slow :: env where
  "example_env_slow = example_env\<lparr>pdfParse := (\<lambda>b. Settles 45000 (Inr example_pdf))\<rparr>"

text \<open>Two uploads: a PDF and a text file.\<close>

definition example_part :: upload_part where
  "example_part =
     \<lparr>part_originalname = ''b.pdf'', part_mimetype = ''application/pdf'',
      part_content = [37, 80, 68, 70]\<rparr>"

definition example_note :: upload_part where
  "example_note =
     \<lparr>part_originalname = ''b.txt'', part_mimetype = ''text/plain'',
      part_content = [104, 105]\<rparr>"

text \<open>
  The documents of the mock user: one stuck with its file, one stuck without, one done.
\<close>

definition example_mock_world :: world where
  "example_mock_world =
     example_world
       \<lparr>documents :=
          [example_doc\<lparr>oid := ''m1'', userId := ''mock-user-id-123''\<rparr>,
           example_doc\<lparr>oid := ''m2'', userId := ''mock-user-id-123'', filename := ''gone.pdf''\<rparr>,
           example_doc\<lparr>oid := ''m3'', userId := ''mock-user-id-123'', status := ''completed''\<rparr>]\<rparr>"

section \<open>The trace discipline of the primitives\<close>

lemma emitsI:
  assumes "\<And>s. \<exists>evs. trace (snd (m s)) = trace s @ evs \<and> list_all Q evs"
  shows "emits Q m"
  using assms by (simp add: emits_def)

lemma emits_new_events: "emits Q m \<Longrightarrow> list_all Q (new_events s (snd (m s)))"
  unfolding emits_def new_events_def
proof -
  assume a: "\<forall>s. \<exists>evs. trace (snd (m s)) = trace s @ evs \<and> list_all Q evs"
  then obtain evs where "trace (snd (m s)) = trace s @ evs" "list_all Q evs" by blast
  then show "list_all Q (drop (length (trace s)) (trace (snd (m s))))" by simp
qed

lemma emits_ret: "emits Q (ret a)"
  by (simp add: emits_def ret_def)

lemma emits_throw: "emits Q (throw e)"
  by (simp add: emits_def throw_def)

lemma emits_lift: "emits Q (lift r)"
  by (simp add: emits_def lift_def)

lemma emits_emit: "Q ev \<Longrightarrow> emits Q (emit ev)"
  by (simp add: emits_def emit_def)

lemma emits_pure: "(\<And>s. trace (snd (m s)) = trace s) \<Longrightarrow> emits Q m"
  by (simp add: emits_def)

lemma emits_seq:
  assumes "emits Q m" and "\<And>r. emits Q (k r)"
  shows "emits Q (\<lambda>s. case m s of (r, s') \<Rightarrow> k r s')"
proof (rule emitsI)
  fix s
  obtain r s1 where m: "m s = (r, s1)" by (cases "m s")
  from assms(1) obtain e1 where e1: "trace (snd (m s)) = trace s @ e1" "list_all Q e1"
    unfolding emits_def by blast
  from assms(2)[of r] obtain e2 where e2: "trace (snd (k r s1)) = trace s1 @ e2" "list_all Q e2"
    unfolding emits_def by blast
  have "trace (snd (case m s of (r, s') \<Rightarrow> k r s')) = trace s @ (e1 @ e2)"
    using m e1 e2 by simp
  moreover have "list_all Q (e1 @ e2)" using e1 e2 by simp
  ultimately show "\<exists>evs. trace (snd (case m s of (r, s') \<Rightarrow> k r s')) = trace s @ evs \<and> list_all Q evs"
    by blast
qed

lemma bind_seq: "bind m f = (\<lambda>s. case m s of (r, s') \<Rightarrow> (case r of Inl e \<Rightarrow> throw e | Inr a \<Rightarrow> f a) s')"
  by (auto simp: bind_def throw_def fun_eq_iff split: prod.splits sum.splits)

lemma catch_seq: "catch m h = (\<lambda>s. case m s of (r, s') \<Rightarrow> (case r of Inl e \<Rightarrow> h e | Inr a \<Rightarrow> ret a) s')"
  by (auto simp: catch_def ret_def fun_eq_iff split: prod.splits sum.splits)

lemma emits_bind:
  assumes "emits Q m" and "\<And>a. emits Q (f a)"
  shows "emits Q (bind m f)"
  unfolding bind_seq
  by (rule emits_seq[OF assms(1)]) (auto split: sum.splits intro: assms(2) emits_throw)

lemma emits_catch:
  assumes "emits Q m" and "\<And>e. emits Q (h e)"
  shows "emits Q (catch m h)"
  unfolding catch_seq
  by (rule emits_seq[OF assms(1)]) (auto split: sum.splits intro: assms(2) emits_ret)

lemma emits_driver:
  assumes "\<And>s. trace (snd (f s)) = trace s"
  shows "emits Q (driver E st i f)"
proof (rule emits_pure)
  fix s
  show "trace (snd (driver E st i f s)) = trace s"
    using assms[of s] by (cases "f s") (simp add: driver_def)
qed

lemma emits_objectId: "emits Q (objectId E i)"
  by (simp add: objectId_def emits_ret emits_throw)


lemma emits_if: "(c \<Longrightarrow> emits Q a) \<Longrightarrow> (\<not> c \<Longrightarrow> emits Q b) \<Longrightarrow> emits Q (if c then a else b)"
  by simp

lemma emits_updateDocument: "Q (EvUpdateDocument i u) \<Longrightarrow> emits Q (updateDocument E st i u)"
  unfolding updateDocument_def objectId_def
  by (intro emits_if emits_bind emits_ret emits_throw emits_emit emits_driver) simp_all

lemma emits_deleteDocument: "Q (EvDeleteDocument i) \<Longrightarrow> emits Q (deleteDocument E i)"
  unfolding deleteDocument_def objectId_def
  by (intro emits_if emits_bind emits_ret emits_throw emits_emit emits_driver) simp_all

lemma emits_getDocument: "emits Q (getDocument E i)"
  unfolding getDocument_def objectId_def
  by (intro emits_if emits_bind emits_ret emits_throw emits_emit emits_driver) simp_all

lemma emits_getDocuments: "emits Q (getDocuments E i)"
  unfolding getDocuments_def
  by (intro emits_driver) simp_all

lemma emits_getExtractions: "emits Q (getExtractions E i)"
  unfolding getExtractions_def
  by (intro emits_driver) simp_all

lemma emits_getPages: "emits Q (getPages E i)"
  unfolding getPages_def
  by (intro emits_driver) simp_all

lemma emits_getChatMessages: "emits Q (getChatMessages E i)"
  unfolding getChatMessages_def
  by (intro emits_driver) simp_all

lemma emits_shift:
  assumes "emits Q m" and "\<And>s. trace (g s) = trace s"
  shows "emits Q (\<lambda>s. m (g s))"
proof (rule emitsI)
  fix s
  from assms(1) obtain evs where "trace (snd (m (g s))) = trace (g s) @ evs" "list_all Q evs"
    unfolding emits_def by blast
  then show "\<exists>evs. trace (snd (m (g s))) = trace s @ evs \<and> list_all Q evs"
    using assms(2) by auto
qed

lemma emits_dep:
  assumes "\<And>s0. emits Q (m s0)" and "\<And>s. trace (g s) = trace s"
  shows "emits Q (\<lambda>s. m s (g s))"
proof (rule emitsI)
  fix s
  from assms(1)[of s] obtain evs where "trace (snd (m s (g s))) = trace (g s) @ evs" "list_all Q evs"
    unfolding emits_def by blast
  then show "\<exists>evs. trace (snd (m s (g s))) = trace s @ evs \<and> list_all Q evs"
    using assms(2) by auto
qed

lemma emits_createPage: "Q (EvCreatePage p) \<Longrightarrow> emits Q (createPage E p)"
  unfolding createPage_def
  apply (rule emits_dep)
   apply (intro emits_bind emits_emit emits_driver)
    apply simp_all
  done

lemma emits_createExtraction:
  assumes "\<And>k. Q (EvCreateExtraction (x\<lparr>ext_oid := k\<rparr>))"
  shows "emits Q (createExtraction E x)"
  unfolding createExtraction_def Let_def
  apply (rule emits_dep)
   apply (intro emits_bind emits_emit emits_driver assms)
   apply simp_all
  done

lemma emits_createChatMessage:
  assumes "\<And>k. Q (EvCreateChatMessage (m\<lparr>msg_oid := k\<rparr>))"
  shows "emits Q (createChatMessage E st m)"
  unfolding createChatMessage_def Let_def
  apply (rule emits_dep)
   apply (intro emits_bind emits_emit emits_driver assms)
   apply simp_all
  done

lemma emits_createDocument:
  assumes "\<And>k. Q (EvCreateDocument (d\<lparr>oid := k\<rparr>))"
  shows "emits Q (createDocument E d)"
  unfolding createDocument_def Let_def
  apply (rule emits_dep)
   apply (intro emits_bind emits_emit emits_driver assms)
   apply simp_all
  done

lemma emits_readFileSync: "Q (EvReadFile p) \<Longrightarrow> emits Q (readFileSync E p)"
  unfolding readFileSync_def
  by (intro emits_bind emits_emit emits_pure) (auto split: option.splits)

lemma emits_unlinkSync: "Q (EvUnlink p) \<Longrightarrow> emits Q (unlinkSync E p)"
  unfolding unlinkSync_def
  by (intro emits_bind emits_emit emits_pure) (auto split: option.splits)

lemma emits_spawn: "Q (EvSpawn j) \<Longrightarrow> emits Q (spawn j)"
  unfolding spawn_def
  by (intro emits_bind emits_emit emits_pure) auto

lemma emits_pageAndStatistics:
  assumes "Q (EvCreatePage pg)" and "Q (EvTextStatistics t)"
  shows "emits Q (pageAndStatistics E pg t)"
  unfolding pageAndStatistics_def
  apply (rule emits_seq)
   apply (rule emits_createPage)
   apply (rule assms)
  apply (rule emits_seq)
   apply (rule emits_emit)
   apply (rule assms)
  apply (rule emits_pure)
  apply (simp split: sum.splits)
  done

section \<open>Invariants of the writes\<close>

lemmas emits_rules =
  emits_if emits_bind emits_catch emits_ret emits_throw emits_lift emits_emit
  emits_updateDocument emits_deleteDocument emits_getDocument emits_getDocuments
  emits_getExtractions emits_getPages emits_getChatMessages emits_createPage
  emits_createExtraction emits_createChatMessage emits_createDocument emits_readFileSync
  emits_unlinkSync emits_spawn emits_pageAndStatistics

lemma emits_processDocument_ext: "emits extraction_write_ok (processDocument E i p)"
  unfolding processDocument_def processDocument_try_def Let_def
  by (intro emits_rules) simp_all

lemma emits_processDocument_doc: "emits doc_write_ok (processDocument E i p)"
  unfolding processDocument_def processDocument_try_def Let_def
  by (intro emits_rules)
     (simp_all add: upd_def opt_all_def valid_status_def written_progress_def valid_progress_def)


lemma emits_case_option:
  "emits Q a \<Longrightarrow> (\<And>x. emits Q (f x)) \<Longrightarrow> emits Q (case v of None \<Rightarrow> a | Some x \<Rightarrow> f x)"
  by (cases v) simp_all

lemma emits_storeExtraction:
  "emits Q (\<lambda>s. case updateExtraction E (extractions s) k a of
                   Inl e \<Rightarrow> (Inl e, s)
                 | Inr xs \<Rightarrow> (Inr (), s\<lparr>extractions := xs\<rparr>))"
  by (rule emits_pure) (simp split: sum.splits)

lemma emits_enhance_try:
  assumes "\<And>t n. Q (EvAiCall t n)"
    and "\<And>k a. length (keywordsList a) \<le> 15 \<Longrightarrow> Q (EvUpdateExtraction k a)"
  shows "emits Q (enhance_try E i t)"
  unfolding enhance_try_def Let_def
  apply (intro emits_rules emits_case_option emits_storeExtraction assms)
   apply (rule emits_pure)
   apply simp_all
  done

lemma emits_enhance_ext: "emits extraction_write_ok (enhanceAnalysisWithAI E i t)"
  unfolding enhanceAnalysisWithAI_def
  by (intro emits_catch emits_ret emits_enhance_try) simp_all

text \<open>
  Claim C10. Every extraction write carries at most 15 keywords: the one \<open>processDocument\<close>
  creates from the NLP keywords, and the one the AI enhancement hands to
  \<open>updateExtraction\<close> after merging and deduplicating, whatever the run does otherwise.
\<close>

theorem keywords_at_most_15:
  "list_all extraction_write_ok (new_events s (snd (processDocument E i p s)))
   \<and> list_all extraction_write_ok (new_events s (snd (enhanceAnalysisWithAI E i t s)))"
  using emits_new_events[OF emits_processDocument_ext] emits_new_events[OF emits_enhance_ext]
  by blast

section \<open>Document writes\<close>

lemma emits_route: "emits Q m \<Longrightarrow> emits Q (route failure m)"
  unfolding route_def
  by (rule emits_seq[where k="\<lambda>r s'. case r of Inl e \<Rightarrow> (Response 500 (Message failure), s') | Inr x \<Rightarrow> (x, s')", simplified])
     (auto intro: emits_pure split: sum.splits)


lemma emits_weaken:
  assumes "emits Q m" and "\<And>s. snd (n s) = snd (m s)"
  shows "emits Q n"
  using assms by (simp add: emits_def)

lemma emits_unawaited: "emits Q m \<Longrightarrow> emits Q (unawaited m)"
  by (erule emits_weaken) (simp add: unawaited_def)

lemma emits_case_prod:
  "(\<And>a b. emits Q (f a b)) \<Longrightarrow> emits Q (case v of (a, b) \<Rightarrow> f a b)"
  by (cases v) simp

lemma emits_run_job_doc: "emits doc_write_ok (run_job E j)"
proof (cases j)
  case (JobProcess i p c)
  then show ?thesis
    by (cases c)
       (auto intro!: emits_catch emits_unawaited emits_updateDocument emits_processDocument_doc
             simp: upd_def opt_all_def valid_status_def written_progress_def valid_progress_def)
next
  case (JobEnhance i t)
  have "emits doc_write_ok (enhance_try E i t)"
    by (rule emits_enhance_try) simp_all
  then show ?thesis
    using JobEnhance by (auto intro!: emits_catch emits_ret simp: enhanceAnalysisWithAI_def)
qed

lemma emits_getDocumentWithExtractions: "emits Q (getDocumentWithExtractions E i)"
  unfolding getDocumentWithExtractions_def
  by (intro emits_rules emits_case_option)

lemma emits_getDocumentRoute: "emits Q (getDocumentRoute E sub i)"
  unfolding getDocumentRoute_def
  by (intro emits_route emits_rules emits_case_option emits_case_prod emits_getDocumentWithExtractions)

lemma emits_getChatRoute: "emits Q (getChatRoute E sub i)"
  unfolding getChatRoute_def
  by (intro emits_route emits_rules emits_case_option)

lemma emits_state_if:
  assumes "emits Q a" and "emits Q b"
  shows "emits Q (\<lambda>s. if c s then a s else b s)"
  using assms by (simp add: emits_def)

lemma emits_deleteRoute:
  assumes "\<And>p. Q (EvUnlink p)" and "\<And>k. Q (EvDeleteDocument k)"
  shows "emits Q (deleteRoute E sub i)"
  unfolding deleteRoute_def Let_def
  by (intro emits_route emits_rules emits_case_option emits_state_if emits_pure assms) simp_all

lemma emits_retryRoute:
  assumes "Q (EvUpdateDocument i (upd (Some ''processing'') (Some 0)))" and "\<And>j. Q (EvSpawn j)"
  shows "emits Q (retryRoute E sub i)"
  unfolding retryRoute_def Let_def
  by (intro emits_route emits_rules emits_case_option emits_state_if emits_pure assms) simp_all

lemma emits_postChatRoute:
  assumes "\<And>m. Q (EvCreateChatMessage m)"
  shows "emits Q (postChatRoute E sub i c)"
  unfolding postChatRoute_def Let_def
  by (intro emits_route emits_rules emits_case_option emits_case_prod
        emits_getDocumentWithExtractions assms)

lemma emits_uploadHandler:
  assumes "\<And>d. status d = ''processing'' \<Longrightarrow> processingProgress d = None \<Longrightarrow> Q (EvCreateDocument d)"
    and "\<And>j. Q (EvSpawn j)"
  shows "emits Q (uploadHandler E sub f)"
  unfolding uploadHandler_def
  by (intro emits_route emits_rules emits_case_option assms) simp_all

lemma emits_upload_single: "emits Q (upload_single E part)"
  by (rule emits_pure)
     (simp add: upload_single_def ret_def throw_def fileFilter_def Let_def split: option.splits)

lemma emits_uploadRoute:
  assumes "\<And>d. status d = ''processing'' \<Longrightarrow> processingProgress d = None \<Longrightarrow> Q (EvCreateDocument d)"
    and "\<And>j. Q (EvSpawn j)"
  shows "emits Q (uploadRoute E sub part)"
proof -
  have "uploadRoute E sub part =
        (\<lambda>s. case upload_single E part s of (r, s') \<Rightarrow>
           (case r of Inl e \<Rightarrow> (\<lambda>s'. (MiddlewareError e, s')) | Inr f \<Rightarrow> uploadHandler E sub f) s')"
    by (auto simp: uploadRoute_def fun_eq_iff split: prod.splits sum.splits)
  moreover have "emits Q \<dots>"
    by (rule emits_seq[OF emits_upload_single])
       (auto split: sum.splits intro: emits_pure emits_uploadHandler assms)
  ultimately show ?thesis by simp
qed


lemma emits_reprocessAll:
  assumes pd: "\<And>i p. emits Q (processDocument E i p)"
    and mark: "\<And>i. Q (EvUpdateDocument i (upd (Some ''error'') None))"
  shows "emits Q (reprocessAll E plan)"
proof (induction plan)
  case Nil
  show ?case by (rule emits_pure) simp
next
  case (Cons x rest)
  obtain i p there where x: "x = (i, p, there)" by (cases x)
  let ?step = "if there then processDocument E i p
               else bind (updateDocument E SSweepMarkError i (upd (Some ''error'') None))
                      (\<lambda>_. ret ())"
  have step: "emits Q ?step"
    by (intro emits_rules pd mark)
  have "emits Q (\<lambda>s. case ?step s of (r, s') \<Rightarrow> reprocessAll E rest s')"
    by (rule emits_seq[OF step]) (rule Cons.IH)
  then show ?case
    by (rule emits_weaken) (simp add: x split: prod.splits)
qed

lemma emits_startupSweep:
  assumes pd: "\<And>i p. emits Q (processDocument E i p)"
    and mark: "\<And>i. Q (EvUpdateDocument i (upd (Some ''error'') None))"
  shows "emits Q (\<lambda>s. ((), startupSweep E s))"
proof -
  let ?plan = "\<lambda>s' docs. map (\<lambda>doc. (oid doc, path_join (uploadDir E) (filename doc),
                          existsSync s' (path_join (uploadDir E) (filename doc))))
                   (stuckDocuments docs)"
  have inner: "emits Q (\<lambda>s'. reprocessAll E (?plan s' docs) s')" for docs
    using emits_dep[where m="\<lambda>s0. reprocessAll E (?plan s0 docs)" and g="\<lambda>s. s" and Q=Q]
      emits_reprocessAll[OF pd mark]
    by simp
  have "emits Q (\<lambda>s. case getDocuments E mockUserId s of (r, s') \<Rightarrow>
          (case r of Inl e \<Rightarrow> (\<lambda>s'. (False, s'))
           | Inr docs \<Rightarrow> (\<lambda>s'. reprocessAll E (?plan s' docs) s')) s')"
    by (rule emits_seq[OF emits_getDocuments]) (auto split: sum.splits intro: emits_pure inner)
  then show ?thesis
    by (rule emits_weaken)
       (auto simp: startupSweep_def Let_def stuckDocuments_def split: prod.splits sum.splits)
qed


text \<open>
  Claim C3. Whatever the service is asked to do (a route, a background job, the startup
  sweep), every document write it issues carries a status among "processing", "completed"
  and "error" when it carries one, and a progress that is -1 or lies in 0..100 when it
  carries one; the progress is one of -1, 0, 10, 25, 40, 60, 100. The insert of the upload
  route writes no progress at all.
\<close>

theorem document_writes_valid:
  "list_all doc_write_ok (new_events s (perform E rq s))"
proof (cases rq)
  case (ReqGetDocument sub i)
  then show ?thesis
    using emits_new_events[OF emits_getDocumentRoute, of doc_write_ok s E sub i] by simp
next
  case (ReqUpload sub part)
  have "emits doc_write_ok (uploadRoute E sub part)"
    by (rule emits_uploadRoute) (simp_all add: opt_all_def valid_status_def)
  then show ?thesis
    using ReqUpload emits_new_events by fastforce
next
  case (ReqDelete sub i)
  have "emits doc_write_ok (deleteRoute E sub i)"
    by (rule emits_deleteRoute) simp_all
  then show ?thesis
    using ReqDelete emits_new_events by fastforce
next
  case (ReqRetry sub i)
  have "emits doc_write_ok (retryRoute E sub i)"
    by (rule emits_retryRoute)
       (simp_all add: upd_def opt_all_def valid_status_def written_progress_def valid_progress_def)
  then show ?thesis
    using ReqRetry emits_new_events by fastforce
next
  case (ReqGetChat sub i)
  then show ?thesis
    using emits_new_events[OF emits_getChatRoute, of doc_write_ok s E sub i] by simp
next
  case (ReqPostChat sub i c)
  have "emits doc_write_ok (postChatRoute E sub i c)"
    by (rule emits_postChatRoute) simp
  then show ?thesis
    using ReqPostChat emits_new_events by fastforce
next
  case (ReqRunJob j)
  then show ?thesis
    using emits_new_events[OF emits_run_job_doc, of s E j] by simp
next
  case ReqStartup
  have "emits doc_write_ok (\<lambda>s. ((), startupSweep E s))"
    by (rule emits_startupSweep[OF emits_processDocument_doc])
       (simp add: upd_def opt_all_def valid_status_def)
  then show ?thesis
    using ReqStartup emits_new_events[of doc_write_ok "\<lambda>s. ((), startupSweep E s)" s] by simp
qed

section \<open>The AI enhancement\<close>

lemma enhance_try_frame:
  "(snd (enhance_try E i t s))\<lparr>trace := trace s, extractions := extractions s\<rparr> = s"
  by (simp add: enhance_try_def Let_def bind_def emit_def lift_def ret_def
           split: sum.splits option.splits prod.splits)

lemma enhance_try_failed:
  "fst (enhance_try E i t s) = Inl e \<Longrightarrow> extractions (snd (enhance_try E i t s)) = extractions s"
  unfolding enhance_try_def Let_def
  by (cases "5000 < length t")
     (auto simp: bind_def emit_def lift_def ret_def split: sum.splits option.splits prod.splits)

lemma enhance_snd:
  "snd (enhanceAnalysisWithAI E i t s) = snd (enhance_try E i t s)"
  by (simp add: enhanceAnalysisWithAI_def catch_def ret_def split: prod.splits sum.splits)

text \<open>
  Claim C4. \<open>enhanceAnalysisWithAI\<close> never rejects, for any document id, text and
  behaviour of the AI provider and of the storage accessors, and neither does the job that
  runs it; it changes nothing of the world but the trace and the extractions, so the
  document keeps its status and progress; and when its body fails (a rejected or late AI
  call, a failing accessor), the extractions are as they were.
\<close>

theorem enhancement_errors_suppressed:
  "fst (enhanceAnalysisWithAI E i t s) = Inr ()
   \<and> fst (run_job E (JobEnhance i t) s) = Inr ()
   \<and> (snd (enhanceAnalysisWithAI E i t s))\<lparr>trace := trace s, extractions := extractions s\<rparr> = s
   \<and> documents (snd (enhanceAnalysisWithAI E i t s)) = documents s
   \<and> (\<forall>e. fst (enhance_try E i t s) = Inl e \<longrightarrow>
         extractions (snd (enhanceAnalysisWithAI E i t s)) = extractions s)"
proof -
  have a: "fst (enhanceAnalysisWithAI E i t s) = Inr ()"
    by (simp add: enhanceAnalysisWithAI_def catch_def ret_def split: prod.splits sum.splits)
  have b: "fst (run_job E (JobEnhance i t) s) = Inr ()"
    by (simp add: catch_def ret_def split: prod.splits sum.splits)
  have c: "(snd (enhanceAnalysisWithAI E i t s))\<lparr>trace := trace s, extractions := extractions s\<rparr> = s"
    by (simp only: enhance_snd enhance_try_frame)
  have d: "documents (snd (enhanceAnalysisWithAI E i t s)) = documents s"
    using arg_cong[OF c, of documents] by simp
  show ?thesis
    using a b c d by (simp add: enhance_snd enhance_try_failed)
qed

text \<open>
  A run where the AI call does not answer within 45 seconds: the body fails with the
  timeout, the call still returns normally, and document and extraction are untouched.
\<close>

theorem enhancement_errors_suppressed_witness:
  "fst (enhance_try example_env ''d1'' example_text example_world)
     = Inl (ErrorMsg ''AI enhancement timed out after 45 seconds'')
   \<and> fst (enhanceAnalysisWithAI example_env ''d1'' example_text example_world) = Inr ()
   \<and> documents (snd (enhanceAnalysisWithAI example_env ''d1'' example_text example_world))
       = [example_doc]
   \<and> extractions (snd (enhanceAnalysisWithAI example_env ''d1'' example_text example_world))
       = [example_extraction]"
proof -
  have f: "fst (enhance_try example_env ''d1'' example_text example_world)
     = Inl (ErrorMsg ''AI enhancement timed out after 45 seconds'')"
    by (simp add: enhance_try_def Let_def bind_def emit_def lift_def withTimeout_def
          generateDocumentSummary_def extractKeywords_def example_env_def)
  show ?thesis
    using enhancement_errors_suppressed[of example_env "''d1''" example_text example_world] f
    by (simp add: example_world_def)
qed

section \<open>The order of a run that goes through\<close>

lemma update_first_twice:
  assumes "\<And>x. P (g x) = P x"
  shows "update_first P f (update_first P g xs) = update_first P (\<lambda>x. f (g x)) xs"
  by (induction xs) (simp_all add: assms)

lemma find_update_first:
  assumes "\<And>x. P (f x) = P x"
  shows "find P (update_first P f xs) = map_option f (find P xs)"
  by (induction xs) (simp_all add: assms)

lemma oid_apply_update [simp]: "oid (apply_update u d) = oid d"
  by (simp add: apply_update_def)

lemma pipeline_try_run:
  assumes v: "validObjectId E i"
    and f: "\<not> fails E SProgress10 i" "\<not> fails E SProgress25 i" "\<not> fails E SCreatePage i"
      "\<not> fails E SProgress40 i" "\<not> fails E SProgress60 i" "\<not> fails E SCreateExtraction i"
      "\<not> fails E SMarkCompleted i"
    and rd: "files s p = Some b" "\<not> fails E FReadFile p"
    and parse: "withTimeout (pdfParse E b) 30000 ''PDF parsing timed out after 30 seconds'' = Inr d"
    and stats: "getTextStatistics E (process_text (text_of d)) = Inr st"
  shows "processDocument_try E i p s =
     (Inr (),
      s\<lparr>documents :=
          update_first (\<lambda>x. oid x = i)
            (\<lambda>x. apply_update (completed_update E (pages_of d))
                   (apply_update (upd None (Some 60))
                   (apply_update (upd None (Some 40))
                   (apply_update (upd None (Some 25))
                   (apply_update (upd (Some ''processing'') (Some 10)) x)))))
            (documents s),
        pages := pages s @ [pipeline_page i (text_of d)],
        extractions := extractions s
          @ [pipeline_extraction E (newObjectId E (Suc (nextOid s))) i (process_text (text_of d)) st],
        jobs := jobs s @ (if isGeminiConfigured E then [JobEnhance i (text_of d)] else []),
        trace := trace s @
          [EvUpdateDocument i (upd (Some ''processing'') (Some 10)),
           EvReadFile p,
           EvPdfParse b 30000,
           EvUpdateDocument i (upd None (Some 25)),
           EvCreatePage (pipeline_page i (text_of d)),
           EvTextStatistics (process_text (text_of d)),
           EvUpdateDocument i (upd None (Some 40)),
           EvNlp (process_text (text_of d)) 10000,
           EvUpdateDocument i (upd None (Some 60)),
           EvCreateExtraction
             (pipeline_extraction E (newObjectId E (Suc (nextOid s))) i
                (process_text (text_of d)) st),
           EvUpdateDocument i (completed_update E (pages_of d))]
          @ (if isGeminiConfigured E then [EvSpawn (JobEnhance i (text_of d))] else []),
        nextOid := Suc (Suc (nextOid s))\<rparr>)"
  using assms
  by (simp add: processDocument_try_def bind_def updateDocument_def objectId_def ret_def
        emit_def driver_def readFileSync_def lift_def Let_def pageAndStatistics_def
        createPage_def createExtraction_def spawn_def
        completed_update_def pipeline_page_def
        pipeline_extraction_def update_first_twice)


lemma processDocument_run:
  assumes v: "validObjectId E i"
    and f: "\<not> fails E SProgress10 i" "\<not> fails E SProgress25 i" "\<not> fails E SCreatePage i"
      "\<not> fails E SProgress40 i" "\<not> fails E SProgress60 i" "\<not> fails E SCreateExtraction i"
      "\<not> fails E SMarkCompleted i"
    and rd: "files s p = Some b" "\<not> fails E FReadFile p"
    and parse: "withTimeout (pdfParse E b) 30000 ''PDF parsing timed out after 30 seconds'' = Inr d"
    and stats: "getTextStatistics E (process_text (text_of d)) = Inr st"
  shows "processDocument E i p s =
     (Inr (),
      s\<lparr>documents :=
          update_first (\<lambda>x. oid x = i)
            (\<lambda>x. apply_update (completed_update E (pages_of d))
                   (apply_update (upd None (Some 60))
                   (apply_update (upd None (Some 40))
                   (apply_update (upd None (Some 25))
                   (apply_update (upd (Some ''processing'') (Some 10)) x)))))
            (documents s),
        pages := pages s @ [pipeline_page i (text_of d)],
        extractions := extractions s
          @ [pipeline_extraction E (newObjectId E (Suc (nextOid s))) i (process_text (text_of d)) st],
        jobs := jobs s @ (if isGeminiConfigured E then [JobEnhance i (text_of d)] else []),
        trace := trace s @ pipeline_calls E s i p b d st,
        nextOid := Suc (Suc (nextOid s))\<rparr>)"
proof -
  let ?s1 = "s\<lparr>trace := trace s @ [EvProcessDocument i p]\<rparr>"
  have "files ?s1 p = Some b" using rd by simp
  note run = pipeline_try_run[OF v f this rd(2) parse stats]
  show ?thesis
    by (simp add: processDocument_def bind_def emit_def catch_def run pipeline_calls_def)
qed

lemma goes_throughD:
  assumes "goes_through E s i p"
  obtains b d st where "validObjectId E i"
    "\<not> fails E SProgress10 i" "\<not> fails E SProgress25 i" "\<not> fails E SCreatePage i"
    "\<not> fails E SProgress40 i" "\<not> fails E SProgress60 i" "\<not> fails E SCreateExtraction i"
    "\<not> fails E SMarkCompleted i"
    "files s p = Some b" "\<not> fails E FReadFile p"
    "withTimeout (pdfParse E b) 30000 ''PDF parsing timed out after 30 seconds'' = Inr d"
    "getTextStatistics E (process_text (text_of d)) = Inr st"
    "parsed E s p = Some d"
  using assms
  by (auto simp: goes_through_def pipeline_sites_def parsed_def
           split: option.splits sum.splits if_splits)

lemma processDocument_goes_through:
  assumes "goes_through E s i p"
  shows "fst (processDocument E i p s) = Inr ()"
    and "new_events s (snd (processDocument E i p s)) = expected_calls E s i p"
    and "jobs (snd (processDocument E i p s)) = jobs s @ expected_jobs E s i p"
proof -
  from assms obtain b d st where h: "validObjectId E i"
    "\<not> fails E SProgress10 i" "\<not> fails E SProgress25 i" "\<not> fails E SCreatePage i"
    "\<not> fails E SProgress40 i" "\<not> fails E SProgress60 i" "\<not> fails E SCreateExtraction i"
    "\<not> fails E SMarkCompleted i"
    "files s p = Some b" "\<not> fails E FReadFile p"
    "withTimeout (pdfParse E b) 30000 ''PDF parsing timed out after 30 seconds'' = Inr d"
    "getTextStatistics E (process_text (text_of d)) = Inr st"
    and pd: "parsed E s p = Some d"
    by (rule goes_throughD)
  note run = processDocument_run[OF h]
  show "fst (processDocument E i p s) = Inr ()" by (simp add: run)
  show "new_events s (snd (processDocument E i p s)) = expected_calls E s i p"
    by (simp add: run new_events_def expected_calls_def h pd)
  show "jobs (snd (processDocument E i p s)) = jobs s @ expected_jobs E s i p"
    by (simp add: run pd expected_jobs_def)
qed

lemma with_ai_prims:
  "updateDocument (with_ai E g ge ue) st i u = updateDocument E st i u"
  "readFileSync (with_ai E g ge ue) p = readFileSync E p"
  "pdfParse (with_ai E g ge ue) = pdfParse E"
  "pageAndStatistics (with_ai E g ge ue) pg t = pageAndStatistics E pg t"
  "nlpStep (with_ai E g ge ue) t = nlpStep E t"
  "createExtraction (with_ai E g ge ue) x = createExtraction E x"
  "now (with_ai E g ge ue) = now E"
  "isGeminiConfigured (with_ai E g ge ue) = isGeminiConfigured E"
  by (simp_all add: with_ai_def updateDocument_def objectId_def driver_def readFileSync_def
        pageAndStatistics_def createPage_def createExtraction_def nlpStep_def
        isGeminiConfigured_def
      cong: if_cong option.case_cong prod.case_cong sum.case_cong)

lemma processDocument_with_ai:
  "processDocument (with_ai E g ge ue) i p = processDocument E i p"
  by (simp add: processDocument_def processDocument_try_def with_ai_prims)

lemma emits_processDocument_nospawn:
  assumes "\<not> isGeminiConfigured E"
  shows "emits (\<lambda>e. \<not> is_spawn e) (processDocument E i p)"
  unfolding processDocument_def processDocument_try_def Let_def
  by (intro emits_rules) (simp_all add: assms)


text \<open>
  Claim C1, amended. When every step goes through, \<open>processDocument\<close> returns normally
  and issues exactly the calls of \<open>pipeline_calls\<close>, in that order: the file read, the
  parser under its timeout of 30000 ms, the page insert with the full text and then the
  statistics call on the truncated text (the two members of one \<open>Promise.all\<close>, the
  insert first), the NLP calls, the extraction insert, the write of status "completed"
  with progress 100, \<open>processedAt\<close> and the page count, and last the start of the AI
  enhancement. The enhancement is never awaited: what \<open>processDocument\<close> returns and
  leaves behind is the same whatever the AI provider and the extraction accessors do. And
  without an API key no run starts it.
\<close>

theorem pipeline_order:
  "(goes_through E s i p \<longrightarrow>
      fst (processDocument E i p s) = Inr ()
      \<and> new_events s (snd (processDocument E i p s)) = expected_calls E s i p
      \<and> jobs (snd (processDocument E i p s)) = jobs s @ expected_jobs E s i p)
   \<and> processDocument (with_ai E g ge ue) i p s = processDocument E i p s
   \<and> (\<not> isGeminiConfigured E \<longrightarrow>
        list_all (\<lambda>e. \<not> is_spawn e) (new_events s (snd (processDocument E i p s))))"
  using processDocument_goes_through[of E s i p]
    emits_new_events[OF emits_processDocument_nospawn, of E s i p]
  by (simp add: processDocument_with_ai)

lemma example_goes_through:
  "goes_through example_env_ai example_world ''d1'' example_path"
  by (simp add: goes_through_def example_env_ai_def example_env_def example_world_def
        example_path_def pipeline_sites_def parsed_def withTimeout_def)

lemma example_parsed:
  "parsed example_env_ai example_world example_path = Some example_pdf"
  by (simp add: example_env_ai_def example_env_def example_world_def
        example_path_def parsed_def withTimeout_def example_pdf_def)

lemma length_example_text: "length example_text = 53"
  by (simp add: example_text_def js_def)

lemma example_expected_calls:
  "expected_calls example_env_ai example_world ''d1'' example_path
   = pipeline_calls example_env_ai example_world ''d1'' example_path [37, 80, 68]
       example_pdf example_stats"
proof -
  have f: "files example_world example_path = Some [37, 80, 68]"
    by (simp add: example_world_def example_path_def)
  have g: "getTextStatistics example_env_ai (process_text (text_of example_pdf))
           = Inr example_stats"
    by (simp add: example_env_ai_def example_env_def example_pdf_def example_stats_def
          text_of_def process_text_def maxTextLength_def length_example_text)
  show ?thesis
    by (simp add: expected_calls_def f example_parsed g)
qed

text \<open>
  The example document goes through; with an API key the enhancement is queued after the
  completed write, without one nothing is queued.
\<close>

theorem pipeline_order_witness:
  "goes_through example_env_ai example_world ''d1'' example_path
   \<and> fst (processDocument example_env_ai ''d1'' example_path example_world) = Inr ()
   \<and> new_events example_world
        (snd (processDocument example_env_ai ''d1'' example_path example_world))
       = pipeline_calls example_env_ai example_world ''d1'' example_path [37, 80, 68]
           example_pdf example_stats
   \<and> jobs (snd (processDocument example_env_ai ''d1'' example_path example_world))
       = [JobEnhance ''d1'' example_text]
   \<and> \<not> isGeminiConfigured example_env
   \<and> list_all (\<lambda>e. \<not> is_spawn e)
        (new_events example_world
           (snd (processDocument example_env ''d1'' example_path example_world)))"
proof -
  have j: "expected_jobs example_env_ai example_world ''d1'' example_path
           = [JobEnhance ''d1'' example_text]"
    by (simp add: expected_jobs_def example_parsed)
       (simp add: example_env_ai_def isGeminiConfigured_def example_pdf_def text_of_def)
  have n: "\<not> isGeminiConfigured example_env"
    by (simp add: isGeminiConfigured_def example_env_def)
  have w: "jobs example_world = []" by (simp add: example_world_def)
  show ?thesis
    using pipeline_order[of example_env_ai example_world "''d1''" example_path]
      pipeline_order[of example_env example_world "''d1''" example_path]
      example_goes_through n
    by (simp add: example_expected_calls j w)
qed

text \<open>
  Claim C1 as stated puts the statistics before the page save. In the run of the example
  the page insert is the sixth call and the statistics call the seventh.
\<close>

theorem statistics_before_page_counterexample:
  "position is_page_save
     (new_events example_world
        (snd (processDocument example_env_ai ''d1'' example_path example_world))) = 5
   \<and> position is_statistics
     (new_events example_world
        (snd (processDocument example_env_ai ''d1'' example_path example_world))) = 6
   \<and> \<not> position is_statistics
         (new_events example_world
            (snd (processDocument example_env_ai ''d1'' example_path example_world)))
       < position is_page_save
           (new_events example_world
              (snd (processDocument example_env_ai ''d1'' example_path example_world)))"
  using processDocument_goes_through(2)[OF example_goes_through]
  by (simp add: example_expected_calls pipeline_calls_def position_def)

section \<open>What a run records\<close>

lemma sentence_pieces_Nil: "sentence_pieces [] = [[]]"
  by (simp add: sentence_pieces.simps)

lemma sentence_pieces_terminator:
  "isTerminator c \<Longrightarrow> sentence_pieces (c # cs) = [] # sentence_pieces (dropWhile isTerminator cs)"
  by (simp add: sentence_pieces.simps[of "c # cs"])

lemma sentence_pieces_other:
  "\<not> isTerminator c \<Longrightarrow>
   sentence_pieces (c # cs) = (case sentence_pieces cs of p # ps \<Rightarrow> (c # p) # ps | [] \<Rightarrow> [])"
  by (simp add: sentence_pieces.simps[of "c # cs"] sentence_pieces.simps[of cs])

lemma sentence_pieces_not_Nil: "sentence_pieces t \<noteq> []"
  by (simp add: sentence_pieces.simps[of t])

lemma splitSentences_pieces:
  "splitSentences cur t = (rev cur @ hd (sentence_pieces t)) # tl (sentence_pieces t)"
proof (induction cur t rule: splitSentences.induct)
  case (1 cur)
  show ?case by (simp add: sentence_pieces_Nil)
next
  case (2 cur c cs)
  show ?case
  proof (cases "isTerminator c")
    case True
    with 2 sentence_pieces_not_Nil[of "dropWhile isTerminator cs"] show ?thesis
      by (simp add: sentence_pieces_terminator)
  next
    case False
    with 2 sentence_pieces_not_Nil[of cs] show ?thesis
      by (cases "sentence_pieces cs") (simp_all add: sentence_pieces_other)
  qed
qed

lemma splitSentences_eq: "splitSentences [] t = sentence_pieces t"
  using sentence_pieces_not_Nil[of t] by (simp add: splitSentences_pieces)

lemma quickSummary_pieces:
  "quickSummary t =
     (if filter (\<lambda>p. 20 < length (trim p)) (sentence_pieces t) = []
      then js ''No summary available.''
      else joinWith (js ''. '') (take 5 (filter (\<lambda>p. 20 < length (trim p)) (sentence_pieces t)))
           @ js ''.'')"
  by (simp add: quickSummary_def Let_def splitSentences_eq)


lemma nlpStep_in_time:
  assumes "extractEntities E t = Settles t1 (Inr es)"
    and "extractKeywordsFromText E t = Settles t2 (Inr ks)"
    and "t1 < 10000" and "t2 < 10000"
  shows "nlpStep E t = (es, ks)"
  using assms by (simp add: nlpStep_def withTimeout_def)

lemma promise_all2_failed:
  assumes "\<not> (\<exists>a b t1 t2. p = Settles t1 (Inr a) \<and> q = Settles t2 (Inr b) \<and> t1 < n \<and> t2 < n)"
  shows "\<exists>e. withTimeout (promise_all2 p q) n msg = Inl e"
proof (cases p)
  case Never
  then show ?thesis
    by (cases q rule: promise.exhaust; cases "case q of Settles t r \<Rightarrow> r | Never \<Rightarrow> Inl Rejected")
       (auto simp: withTimeout_def split: sum.splits)
next
  case (Settles t1 r1)
  show ?thesis
  proof (cases q)
    case Never
    with Settles show ?thesis
      by (cases r1) (auto simp: withTimeout_def)
  next
    case q: (Settles t2 r2)
    with Settles assms show ?thesis
      by (cases r1; cases r2) (auto simp: withTimeout_def)
  qed
qed

lemma nlpStep_late:
  assumes "\<not> nlp_in_time E t"
  shows "nlpStep E t = ([], [])"
proof -
  from assms promise_all2_failed[of "extractEntities E t" "extractKeywordsFromText E t" 10000
      "''NLP processing timed out''"]
  obtain e where "withTimeout (promise_all2 (extractEntities E t) (extractKeywordsFromText E t))
      10000 ''NLP processing timed out'' = Inl e"
    unfolding nlp_in_time_def by blast
  then show ?thesis by (simp add: nlpStep_def)
qed


lemma run_records:
  assumes "goes_through E s i p" and "parsed E s p = Some d"
  shows "\<exists>st. getTextStatistics E (process_text (text_of d)) = Inr st
     \<and> pages (snd (processDocument E i p s)) = pages s @ [pipeline_page i (text_of d)]
     \<and> extractions (snd (processDocument E i p s))
         = extractions s
           @ [pipeline_extraction E (newObjectId E (Suc (nextOid s))) i
                (process_text (text_of d)) st]"
proof -
  from assms(1) obtain b d' st where h: "validObjectId E i"
    "\<not> fails E SProgress10 i" "\<not> fails E SProgress25 i" "\<not> fails E SCreatePage i"
    "\<not> fails E SProgress40 i" "\<not> fails E SProgress60 i" "\<not> fails E SCreateExtraction i"
    "\<not> fails E SMarkCompleted i"
    "files s p = Some b" "\<not> fails E FReadFile p"
    "withTimeout (pdfParse E b) 30000 ''PDF parsing timed out after 30 seconds'' = Inr d'"
    "getTextStatistics E (process_text (text_of d')) = Inr st"
    and pd: "parsed E s p = Some d'"
    by (rule goes_throughD)
  have d: "d' = d" using pd assms(2) by simp
  note run = processDocument_run[OF h]
  show ?thesis
    using h(12) by (simp add: run d)
qed

section \<open>Truncation of long texts\<close>

text \<open>
  Claim C6. When the parser returns more than 50000 code units of text and the run goes
  through, the page record holds the whole text, and the extraction record is made of
  exactly the first 50000 code units: its counts are those the statistics function returns
  for them, its summary is the summary of their sentence pieces, its entities and keywords
  are what the two NLP functions answer for them (the first 15 keywords), or both empty
  when the NLP functions do not both answer in time.
\<close>

theorem long_text_truncated:
  assumes "goes_through E s i p"
    and "parsed E s p = Some d"
    and "length (text_of d) > 50000"
  shows "\<exists>st x. getTextStatistics E (take 50000 (text_of d)) = Inr st
     \<and> pages (snd (processDocument E i p s))
         = pages s @ [\<lparr>pg_documentId = i, pageNumber = 1, extractedText = text_of d,
                        ocrConfidence = 1\<rparr>]
     \<and> extractions (snd (processDocument E i p s)) = extractions s @ [x]
     \<and> ext_documentId x = i \<and> extractionType x = ''analysis''
     \<and> wordCount (ext_data x) = st_wordCount st
     \<and> characterCount (ext_data x) = st_characterCount st
     \<and> summary (ext_data x) = summary_of (sentence_pieces (take 50000 (text_of d)))
     \<and> (\<forall>es ks t1 t2.
           extractEntities E (take 50000 (text_of d)) = Settles t1 (Inr es)
           \<and> extractKeywordsFromText E (take 50000 (text_of d)) = Settles t2 (Inr ks)
           \<and> t1 < 10000 \<and> t2 < 10000 \<longrightarrow>
             entities (ext_data x) = es \<and> keywordsList (ext_data x) = take 15 ks)
     \<and> (\<not> nlp_in_time E (take 50000 (text_of d)) \<longrightarrow>
           entities (ext_data x) = [] \<and> keywordsList (ext_data x) = [])
     \<and> length (take 50000 (text_of d)) = 50000"
proof -
  have pt: "process_text (text_of d) = take 50000 (text_of d)"
    using assms(3) by (simp add: process_text_def maxTextLength_def substring0_def)
  from run_records[OF assms(1,2)] obtain st where
    st: "getTextStatistics E (take 50000 (text_of d)) = Inr st"
    and pg: "pages (snd (processDocument E i p s)) = pages s @ [pipeline_page i (text_of d)]"
    and ex: "extractions (snd (processDocument E i p s))
         = extractions s
           @ [pipeline_extraction E (newObjectId E (Suc (nextOid s))) i
                (take 50000 (text_of d)) st]"
    unfolding pt by blast
  let ?x = "pipeline_extraction E (newObjectId E (Suc (nextOid s))) i (take 50000 (text_of d)) st"
  have a: "ext_documentId ?x = i \<and> extractionType ?x = ''analysis''
     \<and> wordCount (ext_data ?x) = st_wordCount st
     \<and> characterCount (ext_data ?x) = st_characterCount st"
    by (simp add: pipeline_extraction_def)
  have b: "summary (ext_data ?x) = summary_of (sentence_pieces (take 50000 (text_of d)))"
    by (simp add: pipeline_extraction_def quickSummary_pieces summary_of_def)
  have c: "entities (ext_data ?x) = es \<and> keywordsList (ext_data ?x) = take 15 ks"
    if "extractEntities E (take 50000 (text_of d)) = Settles t1 (Inr es)"
      "extractKeywordsFromText E (take 50000 (text_of d)) = Settles t2 (Inr ks)"
      "t1 < 10000" "t2 < 10000" for es ks t1 t2
    using nlpStep_in_time[OF that] by (simp add: pipeline_extraction_def)
  have e: "entities (ext_data ?x) = [] \<and> keywordsList (ext_data ?x) = []"
    if "\<not> nlp_in_time E (take 50000 (text_of d))"
    using nlpStep_late[OF that] by (simp add: pipeline_extraction_def)
  have l: "length (take 50000 (text_of d)) = 50000"
    using assms(3) by simp
  have "pages (snd (processDocument E i p s))
         = pages s @ [\<lparr>pg_documentId = i, pageNumber = 1, extractedText = text_of d,
                        ocrConfidence = 1\<rparr>]"
    using pg by (simp add: pipeline_page_def)
  with st ex a b c e l show ?thesis by blast
qed


lemma length_report_head: "length report_head = 67"
  by (simp add: report_head_def js_def)

lemma length_report_body: "length report_body = 49933"
  by (simp add: report_body_def)

lemma report_cut: "take 50000 report_text = report_head @ report_body"
  by (simp add: report_text_def length_report_head length_report_body)

lemma report_long: "50000 < length report_text"
  by (simp add: report_text_def length_report_head length_report_body report_tail_def js_def)

lemma body_pieces: "sentence_pieces report_body = [report_body]"
  unfolding report_body_def
  by (subst sentence_pieces.simps) (simp add: isTerminator_def)

lemma report_pieces:
  "sentence_pieces (report_head @ report_body)
   = [js ''Note'', js ''        Only a few words'', js '' The quarterly report follows below'',
      0x20 # report_body]"
  by (simp add: report_head_def js_def sentence_pieces_terminator sentence_pieces_other
        isTerminator_def body_pieces)


lemma report_summary:
  "summary_of (sentence_pieces (report_head @ report_body))
   = js '' The quarterly report follows below'' @ js ''. '' @ [0x20] @ report_body @ js ''.''"
  by (simp add: report_pieces summary_of_def trim_def js_def isWhiteSpace_def joinWith_def)
     (simp add: report_body_def isWhiteSpace_def)

lemma report_entities:
  "drop 49998 (report_head @ report_body) = replicate 2 0x61"
  "drop 49999 (report_head @ report_body) = replicate 1 0x61"
  by (simp_all add: length_report_head) (simp_all add: report_body_def)


lemma report_goes_through:
  "goes_through example_env_report example_world ''d1'' example_path"
  by (simp add: goes_through_def example_env_report_def example_env_def example_world_def
        example_path_def pipeline_sites_def parsed_def withTimeout_def)

lemma report_parsed:
  "parsed example_env_report example_world example_path = Some report_pdf"
  by (simp add: example_env_report_def example_env_def example_world_def
        example_path_def parsed_def withTimeout_def)

lemma report_text_of: "text_of report_pdf = report_text"
  by (simp add: text_of_def report_pdf_def)

text \<open>
  The report: the page keeps all of it; the summary is the one sentence of the heading
  whose trimmed length exceeds 20 and the letters up to the cut, without the tail; the
  entity and the keywords are the last letters before the cut; the count is 50000.
\<close>

theorem long_text_truncated_witness:
  "goes_through example_env_report example_world ''d1'' example_path
   \<and> parsed example_env_report example_world example_path = Some report_pdf
   \<and> 50000 < length (text_of report_pdf)
   \<and> map extractedText
        (pages (snd (processDocument example_env_report ''d1'' example_path example_world)))
       = [report_text]
   \<and> map (\<lambda>x. summary (ext_data x))
        (extractions (snd (processDocument example_env_report ''d1'' example_path example_world)))
       = [js ''old'',
          js '' The quarterly report follows below'' @ js ''. '' @ [0x20] @ report_body @ js ''.'']
   \<and> map (\<lambda>x. entities (ext_data x))
        (extractions (snd (processDocument example_env_report ''d1'' example_path example_world)))
       = [[], [replicate 2 0x61]]
   \<and> map (\<lambda>x. keywordsList (ext_data x))
        (extractions (snd (processDocument example_env_report ''d1'' example_path example_world)))
       = [[js ''invoice''], replicate 15 (replicate 1 0x61)]
   \<and> map (\<lambda>x. characterCount (ext_data x))
        (extractions (snd (processDocument example_env_report ''d1'' example_path example_world)))
       = [53, 50000]"
proof -
  let ?s' = "snd (processDocument example_env_report ''d1'' example_path example_world)"
  have l: "50000 < length (text_of report_pdf)"
    by (simp only: report_text_of report_long)
  have cut: "take 50000 (text_of report_pdf) = report_head @ report_body"
    by (simp only: report_text_of report_cut)
  have g: "getTextStatistics example_env_report t
           = Inr \<lparr>st_wordCount = 9, st_characterCount = length t\<rparr>" for t
    by (simp add: example_env_report_def example_env_def)
  have n: "extractEntities example_env_report t = Settles 5 (Inr [drop 49998 t])"
    "extractKeywordsFromText example_env_report t = Settles 5 (Inr (replicate 20 (drop 49999 t)))"
    for t
    by (simp_all add: example_env_report_def)
  have w: "pages example_world = []" "extractions example_world = [example_extraction]"
    by (simp_all add: example_world_def)
  from long_text_truncated[OF report_goes_through report_parsed l]
  obtain st x where st: "getTextStatistics example_env_report (take 50000 (text_of report_pdf)) = Inr st"
    and pg: "pages ?s' = pages example_world @ [\<lparr>pg_documentId = ''d1'', pageNumber = 1,
              extractedText = text_of report_pdf, ocrConfidence = 1\<rparr>]"
    and ex: "extractions ?s' = extractions example_world @ [x]"
    and cc: "characterCount (ext_data x) = st_characterCount st"
    and su: "summary (ext_data x) = summary_of (sentence_pieces (take 50000 (text_of report_pdf)))"
    and nl: "\<forall>es ks t1 t2.
           extractEntities example_env_report (take 50000 (text_of report_pdf)) = Settles t1 (Inr es)
           \<and> extractKeywordsFromText example_env_report (take 50000 (text_of report_pdf))
               = Settles t2 (Inr ks)
           \<and> t1 < 10000 \<and> t2 < 10000 \<longrightarrow>
             entities (ext_data x) = es \<and> keywordsList (ext_data x) = take 15 ks"
    and le: "length (take 50000 (text_of report_pdf)) = 50000"
    by blast
  have c: "characterCount (ext_data x) = 50000"
    using st le cc by (simp only: g) auto
  have s: "summary (ext_data x)
     = js '' The quarterly report follows below'' @ js ''. '' @ [0x20] @ report_body @ js ''.''"
    by (simp only: su cut report_summary)
  from nl have "entities (ext_data x) = [drop 49998 (take 50000 (text_of report_pdf))]
      \<and> keywordsList (ext_data x)
          = take 15 (replicate 20 (drop 49999 (take 50000 (text_of report_pdf))))"
    by (simp add: n)
  then have e: "entities (ext_data x) = [replicate 2 0x61]"
    "keywordsList (ext_data x) = replicate 15 (replicate 1 0x61)"
    unfolding cut report_entities by simp_all
  show ?thesis
    using report_goes_through report_parsed l
    by (simp add: pg ex w report_text_of c s e example_extraction_def)
qed


section \<open>Failures before completion\<close>

lemma bind_InrE:
  assumes "bind m f s = (Inr b, s')"
  obtains a s1 where "m s = (Inr a, s1)" and "f a s1 = (Inr b, s')"
  using assms by (auto simp: bind_def split: prod.splits sum.splits)

lemma updateDocument_InrD:
  assumes "updateDocument E st i u s = (Inr a, s')"
  shows "validObjectId E i \<and> \<not> fails E st i \<and> files s' = files s"
  using assms
  by (auto simp: updateDocument_def objectId_def bind_def ret_def throw_def emit_def driver_def
           split: if_splits)

lemma readFileSync_InrD:
  assumes "readFileSync E p s = (Inr b, s')"
  shows "files s p = Some b \<and> \<not> fails E FReadFile p"
  using assms
  by (auto simp: readFileSync_def bind_def emit_def split: option.splits if_splits)

lemma lift_InrD: "lift r s = (Inr d, s') \<Longrightarrow> r = Inr d"
  by (simp add: lift_def)

lemma pageAndStatistics_InrD:
  assumes "pageAndStatistics E pg t s = (Inr st, s')"
  shows "\<not> fails E SCreatePage (pg_documentId pg) \<and> getTextStatistics E t = Inr st"
  using assms
  by (auto simp: pageAndStatistics_def createPage_def bind_def emit_def driver_def
           split: prod.splits sum.splits if_splits)

lemma createExtraction_InrD:
  assumes "createExtraction E x s = (Inr a, s')"
  shows "\<not> fails E SCreateExtraction (ext_documentId x)"
  using assms
  by (auto simp: createExtraction_def Let_def bind_def emit_def driver_def split: if_splits)

lemma try_Inr_goes_through:
  assumes "processDocument_try E i p s = (Inr u, s')"
  shows "goes_through E s i p"
  using assms
  unfolding processDocument_try_def Let_def
  apply (elim bind_InrE)
  apply (drule updateDocument_InrD readFileSync_InrD lift_InrD pageAndStatistics_InrD
      createExtraction_InrD)+
  apply (simp add: goes_through_def pipeline_sites_def parsed_def)
  done


lemma goes_through_trace:
  "goes_through E (s\<lparr>trace := t\<rparr>) i p = goes_through E s i p"
  by (simp add: goes_through_def parsed_def)

lemma processDocument_unfold:
  "processDocument E i p s =
     (case processDocument_try E i p (s\<lparr>trace := trace s @ [EvProcessDocument i p]\<rparr>) of
        (Inl e, s2) \<Rightarrow>
          (case updateDocument E SMarkError i (upd (Some ''error'') (Some (- 1))) s2 of
             (Inl e', s3) \<Rightarrow> (Inl e', s3)
           | (Inr a, s3) \<Rightarrow> (Inl e, s3))
      | (Inr u, s2) \<Rightarrow> (Inr u, s2))"
  by (simp add: processDocument_def bind_def emit_def catch_def throw_def
           split: prod.splits sum.splits)

lemma processDocument_Inr_iff:
  "(fst (processDocument E i p s) = Inr ()) = goes_through E s i p"
proof
  assume "fst (processDocument E i p s) = Inr ()"
  then obtain s2 where
    "processDocument_try E i p (s\<lparr>trace := trace s @ [EvProcessDocument i p]\<rparr>) = (Inr (), s2)"
    by (auto simp: processDocument_unfold split: prod.splits sum.splits)
  then have "goes_through E (s\<lparr>trace := trace s @ [EvProcessDocument i p]\<rparr>) i p"
    by (rule try_Inr_goes_through)
  then show "goes_through E s i p"
    by (simp add: goes_through_trace)
next
  assume "goes_through E s i p"
  then show "fst (processDocument E i p s) = Inr ()"
    by (rule processDocument_goes_through(1))
qed

lemma updateDocument_lookup:
  assumes "validObjectId E i" and "\<not> fails E st i"
  shows "lookup i (snd (updateDocument E st i u s)) = map_option (apply_update u) (lookup i s)"
  using assms
  by (simp add: updateDocument_def objectId_def bind_def ret_def emit_def driver_def lookup_def
        find_update_first)

lemma failed_run_marked:
  assumes "\<not> goes_through E s i p" and "validObjectId E i" and "\<not> fails E SMarkError i"
    and "lookup i (snd (processDocument E i p s)) = Some d"
  shows "status d = ''error'' \<and> processingProgress d = Some (- 1)"
proof -
  let ?s1 = "s\<lparr>trace := trace s @ [EvProcessDocument i p]\<rparr>"
  obtain r s2 where t: "processDocument_try E i p ?s1 = (r, s2)"
    by (cases "processDocument_try E i p ?s1")
  have "r \<noteq> Inr ()"
  proof
    assume "r = Inr ()"
    with t have "goes_through E ?s1 i p" by (auto intro: try_Inr_goes_through)
    with assms(1) show False by (simp add: goes_through_trace)
  qed
  then obtain e where r: "r = Inl e" by (cases r) auto
  have "snd (processDocument E i p s)
        = snd (updateDocument E SMarkError i (upd (Some ''error'') (Some (- 1))) s2)"
    by (simp add: processDocument_unfold t r split: prod.splits sum.splits)
  then have "lookup i (snd (processDocument E i p s))
        = map_option (apply_update (upd (Some ''error'') (Some (- 1)))) (lookup i s2)"
    by (simp add: updateDocument_lookup assms(2,3))
  with assms(4) show ?thesis
    by (auto simp: apply_update_def upd_def)
qed

lemma completed_run_marked:
  assumes "goes_through E s i p"
    and "lookup i (snd (processDocument E i p s)) = Some d"
  shows "status d = ''completed'' \<and> processingProgress d = Some 100"
proof -
  from assms(1) obtain b d' st where h: "validObjectId E i"
    "\<not> fails E SProgress10 i" "\<not> fails E SProgress25 i" "\<not> fails E SCreatePage i"
    "\<not> fails E SProgress40 i" "\<not> fails E SProgress60 i" "\<not> fails E SCreateExtraction i"
    "\<not> fails E SMarkCompleted i"
    "files s p = Some b" "\<not> fails E FReadFile p"
    "withTimeout (pdfParse E b) 30000 ''PDF parsing timed out after 30 seconds'' = Inr d'"
    "getTextStatistics E (process_text (text_of d')) = Inr st"
    and pd: "parsed E s p = Some d'"
    by (rule goes_throughD)
  note run = processDocument_run[OF h]
  from assms(2) show ?thesis
    by (auto simp: run lookup_def find_update_first apply_update_def completed_update_def)
qed


lemma keeps_idsI: "(\<And>s. doc_ids (snd (m s)) = doc_ids s) \<Longrightarrow> keeps_ids m"
  by (simp add: keeps_ids_def)

lemma keeps_idsD: "keeps_ids m \<Longrightarrow> doc_ids (snd (m s)) = doc_ids s"
  by (simp add: keeps_ids_def)

lemma keeps_ids_seq:
  assumes "keeps_ids m" and "\<And>r. keeps_ids (k r)"
  shows "keeps_ids (\<lambda>s. case m s of (r, s') \<Rightarrow> k r s')"
proof (rule keeps_idsI)
  fix s
  obtain r s1 where m: "m s = (r, s1)" by (cases "m s")
  have "doc_ids s1 = doc_ids s" using keeps_idsD[OF assms(1), of s] m by simp
  moreover have "doc_ids (snd (k r s1)) = doc_ids s1" by (rule keeps_idsD[OF assms(2)])
  ultimately show "doc_ids (snd (case m s of (r, s') \<Rightarrow> k r s')) = doc_ids s"
    using m by simp
qed

lemma keeps_ids_ret: "keeps_ids (ret a)"
  by (simp add: keeps_ids_def ret_def)

lemma keeps_ids_throw: "keeps_ids (throw e)"
  by (simp add: keeps_ids_def throw_def)

lemma keeps_ids_lift: "keeps_ids (lift r)"
  by (simp add: keeps_ids_def lift_def)

lemma keeps_ids_emit: "keeps_ids (emit ev)"
  by (simp add: keeps_ids_def emit_def doc_ids_def)

lemma keeps_ids_bind:
  assumes "keeps_ids m" and "\<And>a. keeps_ids (f a)"
  shows "keeps_ids (bind m f)"
  unfolding bind_seq
  by (rule keeps_ids_seq[OF assms(1)]) (auto split: sum.splits intro: assms(2) keeps_ids_throw)

lemma keeps_ids_catch:
  assumes "keeps_ids m" and "\<And>e. keeps_ids (h e)"
  shows "keeps_ids (catch m h)"
  unfolding catch_seq
  by (rule keeps_ids_seq[OF assms(1)]) (auto split: sum.splits intro: assms(2) keeps_ids_ret)

lemma keeps_ids_if:
  "(c \<Longrightarrow> keeps_ids a) \<Longrightarrow> (\<not> c \<Longrightarrow> keeps_ids b) \<Longrightarrow> keeps_ids (if c then a else b)"
  by simp

lemma map_oid_update_first:
  "map oid (update_first P (apply_update u) xs) = map oid xs"
  by (induction xs) simp_all

lemma keeps_ids_updateDocument: "keeps_ids (updateDocument E st i u)"
  by (rule keeps_idsI)
     (simp add: updateDocument_def objectId_def bind_def ret_def throw_def emit_def driver_def
        doc_ids_def map_oid_update_first)

lemma keeps_ids_readFileSync: "keeps_ids (readFileSync E p)"
  by (rule keeps_idsI)
     (simp add: readFileSync_def bind_def emit_def doc_ids_def split: option.splits)

lemma keeps_ids_pageAndStatistics: "keeps_ids (pageAndStatistics E pg t)"
  by (rule keeps_idsI)
     (simp add: pageAndStatistics_def createPage_def bind_def emit_def driver_def doc_ids_def
           split: sum.splits)

lemma keeps_ids_createExtraction: "keeps_ids (createExtraction E x)"
  by (rule keeps_idsI)
     (simp add: createExtraction_def Let_def bind_def emit_def driver_def doc_ids_def)

lemma keeps_ids_spawn: "keeps_ids (spawn j)"
  by (rule keeps_idsI) (simp add: spawn_def bind_def emit_def doc_ids_def)

lemmas keeps_ids_rules =
  keeps_ids_if keeps_ids_bind keeps_ids_catch keeps_ids_ret keeps_ids_throw keeps_ids_lift
  keeps_ids_emit keeps_ids_updateDocument keeps_ids_readFileSync keeps_ids_pageAndStatistics
  keeps_ids_createExtraction keeps_ids_spawn

lemma keeps_ids_processDocument: "keeps_ids (processDocument E i p)"
  unfolding processDocument_def processDocument_try_def Let_def
  by (intro keeps_ids_rules)

lemma lookup_None_iff: "(lookup i s = None) = (i \<notin> set (doc_ids s))"
  by (auto simp: lookup_def doc_ids_def find_None_iff)

lemma goes_through_with_nlp:
  "goes_through (with_nlp E ee ek) s i p = goes_through E s i p"
proof -
  have "parsed (with_nlp E ee ek) s p = parsed E s p"
    by (simp add: parsed_def with_nlp_def cong: option.case_cong if_cong)
  then show ?thesis
    by (simp add: goes_through_def with_nlp_def cong: option.case_cong)
qed

lemma failed_nlp_recorded:
  assumes "goes_through E s i p" and "parsed E s p = Some d"
    and "\<not> nlp_in_time E (process_text (text_of d))"
  shows "\<exists>x. extractions (snd (processDocument E i p s)) = extractions s @ [x]
     \<and> entities (ext_data x) = [] \<and> keywordsList (ext_data x) = []"
proof -
  from run_records[OF assms(1,2)] obtain st where
    "extractions (snd (processDocument E i p s))
         = extractions s
           @ [pipeline_extraction E (newObjectId E (Suc (nextOid s))) i
                (process_text (text_of d)) st]"
    by blast
  then show ?thesis
    using nlpStep_late[OF assms(3)] by (simp add: pipeline_extraction_def)
qed

text \<open>
  Claim C2, amended. \<open>processDocument\<close> returns normally exactly when every step before
  completion other than the NLP step succeeds: the id is accepted, none of the seven
  storage writes fails, the file is read, the parser answers in time and the statistics are
  computed. What the entity and keyword extraction do has no part in it: when they do not
  both answer in time, a run that goes through records an extraction whose entities and
  keywords are both empty. In every other run, when the storage takes the write of the
  catch block, the document (if it is stored) ends with status "error" and progress -1; in
  a run that returns normally it ends with status "completed" and progress 100. No run adds
  or removes the document.
\<close>

theorem failure_marks_error:
  "(fst (processDocument E i p s) = Inr ()) = goes_through E s i p
   \<and> goes_through (with_nlp E ee ek) s i p = goes_through E s i p
   \<and> (\<not> goes_through E s i p \<and> validObjectId E i \<and> \<not> fails E SMarkError i \<longrightarrow>
        (\<forall>d. lookup i (snd (processDocument E i p s)) = Some d \<longrightarrow>
           status d = ''error'' \<and> processingProgress d = Some (- 1)))
   \<and> (goes_through E s i p \<longrightarrow>
        (\<forall>d. lookup i (snd (processDocument E i p s)) = Some d \<longrightarrow>
           status d = ''completed'' \<and> processingProgress d = Some 100))
   \<and> (lookup i (snd (processDocument E i p s)) = None) = (lookup i s = None)
   \<and> (goes_through E s i p \<and> parsed E s p = Some pdf
        \<and> \<not> nlp_in_time E (process_text (text_of pdf)) \<longrightarrow>
        (\<exists>x. extractions (snd (processDocument E i p s)) = extractions s @ [x]
           \<and> entities (ext_data x) = [] \<and> keywordsList (ext_data x) = []))"
  using failed_run_marked[of E s i p] completed_run_marked[of E s i p]
    keeps_idsD[OF keeps_ids_processDocument, of E i p s]
    failed_nlp_recorded[of E s i p pdf]
  by (simp add: processDocument_Inr_iff goes_through_with_nlp lookup_None_iff)

lemma nlp_parsed:
  "parsed example_env_nlp example_world example_path = Some example_pdf"
  by (simp add: example_env_nlp_def example_env_def example_world_def
        example_path_def parsed_def withTimeout_def example_pdf_def)

lemma nlp_not_in_time: "\<not> nlp_in_time example_env_nlp t"
  by (simp add: nlp_in_time_def example_env_nlp_def)

lemma example_lookup: "lookup ''d1'' example_world = Some example_doc"
  by (simp add: lookup_def example_world_def example_doc_def)

lemma nlp_goes_through:
  "goes_through example_env_nlp example_world ''d1'' example_path"
  by (simp add: goes_through_def example_env_nlp_def example_env_def example_world_def
        example_path_def pipeline_sites_def parsed_def withTimeout_def)

text \<open>
  A parser that needs 45000 ms loses against the timer of 30000 ms: the run rejects and
  the document is marked "error" with progress -1. And with an entity extraction that
  rejects, the run goes through and records no entity and no keyword, though the keyword
  extraction had answered with one.
\<close>

theorem failure_marks_error_witness:
  "\<not> goes_through example_env_slow example_world ''d1'' example_path
   \<and> validObjectId example_env_slow ''d1''
   \<and> \<not> fails example_env_slow SMarkError ''d1''
   \<and> fst (processDocument example_env_slow ''d1'' example_path example_world) \<noteq> Inr ()
   \<and> map_option status
        (lookup ''d1'' (snd (processDocument example_env_slow ''d1'' example_path example_world)))
       = Some ''error''
   \<and> map_option processingProgress
        (lookup ''d1'' (snd (processDocument example_env_slow ''d1'' example_path example_world)))
       = Some (Some (- 1))
   \<and> goes_through example_env_nlp example_world ''d1'' example_path
   \<and> parsed example_env_nlp example_world example_path = Some example_pdf
   \<and> \<not> nlp_in_time example_env_nlp (process_text (text_of example_pdf))
   \<and> extractKeywordsFromText example_env_nlp (process_text (text_of example_pdf))
       = Settles 5 (Inr [js ''invoice''])
   \<and> map (\<lambda>x. entities (ext_data x))
        (extractions (snd (processDocument example_env_nlp ''d1'' example_path example_world)))
       = [[], []]
   \<and> map (\<lambda>x. keywordsList (ext_data x))
        (extractions (snd (processDocument example_env_nlp ''d1'' example_path example_world)))
       = [[js ''invoice''], []]"
proof -
  have n: "\<not> goes_through example_env_slow example_world ''d1'' example_path"
    by (simp add: goes_through_def example_env_slow_def example_env_def example_world_def
          example_path_def pipeline_sites_def parsed_def withTimeout_def)
  have v: "validObjectId example_env_slow ''d1''" "\<not> fails example_env_slow SMarkError ''d1''"
    by (simp_all add: example_env_slow_def example_env_def)
  note t = failure_marks_error[of example_env_slow "''d1''" example_path example_world
      "extractEntities example_env_slow" "extractKeywordsFromText example_env_slow"]
  from t example_lookup obtain d where
    d: "lookup ''d1'' (snd (processDocument example_env_slow ''d1'' example_path example_world))
        = Some d"
    by fastforce
  from t n v d have "status d = ''error'' \<and> processingProgress d = Some (- 1)"
    by blast
  moreover from t n
  have "fst (processDocument example_env_slow ''d1'' example_path example_world) \<noteq> Inr ()"
    by blast
  moreover
  note u = failure_marks_error[of example_env_nlp "''d1''" example_path example_world
      "extractEntities example_env_nlp" "extractKeywordsFromText example_env_nlp" example_pdf]
  from u nlp_goes_through nlp_parsed nlp_not_in_time obtain x where
    "extractions (snd (processDocument example_env_nlp ''d1'' example_path example_world))
       = extractions example_world @ [x]"
    "entities (ext_data x) = []" "keywordsList (ext_data x) = []"
    by blast
  moreover have "extractions example_world = [example_extraction]"
    by (simp add: example_world_def)
  moreover have "extractKeywordsFromText example_env_nlp (process_text (text_of example_pdf))
       = Settles 5 (Inr [js ''invoice''])"
    by (simp add: example_env_nlp_def example_env_def)
  ultimately show ?thesis
    using n v d nlp_goes_through nlp_parsed nlp_not_in_time
    by (simp add: example_extraction_def)
qed

text \<open>
  Claim C2 as stated counts the entity and keyword extraction among the steps whose
  failure ends in status "error". With a rejecting entity extraction the run of the example
  returns normally and the document is "completed" with progress 100: the source replaces
  the failed NLP result by two empty lists.
\<close>

theorem nlp_failure_completes_counterexample:
  "withTimeout
     (promise_all2 (extractEntities example_env_nlp example_text)
        (extractKeywordsFromText example_env_nlp example_text))
     10000 ''NLP processing timed out'' = Inl Rejected
   \<and> fst (processDocument example_env_nlp ''d1'' example_path example_world) = Inr ()
   \<and> map_option status
        (lookup ''d1'' (snd (processDocument example_env_nlp ''d1'' example_path example_world)))
       = Some ''completed''
   \<and> map_option processingProgress
        (lookup ''d1'' (snd (processDocument example_env_nlp ''d1'' example_path example_world)))
       = Some (Some 100)"
proof -
  have a: "withTimeout
     (promise_all2 (extractEntities example_env_nlp example_text)
        (extractKeywordsFromText example_env_nlp example_text))
     10000 ''NLP processing timed out'' = Inl Rejected"
    by (simp add: example_env_nlp_def example_env_def withTimeout_def)
  have b: "fst (processDocument example_env_nlp ''d1'' example_path example_world) = Inr ()"
    using nlp_goes_through by (simp add: processDocument_Inr_iff)
  have "lookup ''d1'' (snd (processDocument example_env_nlp ''d1'' example_path example_world))
        \<noteq> None"
    using keeps_idsD[OF keeps_ids_processDocument, of example_env_nlp "''d1''" example_path
        example_world]
    by (simp add: lookup_None_iff) (simp add: doc_ids_def example_world_def example_doc_def)
  then obtain d where d:
    "lookup ''d1'' (snd (processDocument example_env_nlp ''d1'' example_path example_world))
     = Some d"
    by auto
  from completed_run_marked[OF nlp_goes_through d] a b d show ?thesis by simp
qed

section \<open>Upload\<close>

lemma upload_rejects_non_pdf:
  assumes "part_mimetype f \<noteq> ''application/pdf''"
  shows "uploadRoute E sub (Some f) s
         = (MiddlewareError (ErrorMsg ''Only PDF files are allowed''), s)"
  using assms by (simp add: uploadRoute_def upload_single_def fileFilter_def throw_def)

lemma upload_rejects_large:
  assumes "part_mimetype f = ''application/pdf''" and "length (part_content f) > 100 * 1024 * 1024"
  shows "uploadRoute E sub (Some f) s = (MiddlewareError (ErrorMsg ''File too large''), s)"
  using assms
  by (simp add: uploadRoute_def upload_single_def fileFilter_def throw_def fileSizeLimit_def)

lemma upload_accepted:
  assumes "part_mimetype f = ''application/pdf''" and "length (part_content f) \<le> 100 * 1024 * 1024"
  shows "uploadRoute E sub (Some f) s =
     (if fails E SCreateDocument (newObjectId E (nextOid s))
      then (Response 500 (Message ''Failed to upload document''),
            s\<lparr>files := (files s)(path_join (uploadDir E) (stored_name E f) \<mapsto> part_content f),
              trace := trace s @ [EvCreateDocument (uploaded_doc E s sub f)],
              nextOid := Suc (nextOid s)\<rparr>)
      else (Response 200 (DocumentBody (uploaded_doc E s sub f)),
            s\<lparr>documents := documents s @ [uploaded_doc E s sub f],
              files := (files s)(path_join (uploadDir E) (stored_name E f) \<mapsto> part_content f),
              jobs := jobs s @ [JobProcess (newObjectId E (nextOid s))
                                  (path_join (uploadDir E) (stored_name E f)) UploadCatch],
              trace := trace s @ [EvCreateDocument (uploaded_doc E s sub f),
                                  EvSpawn (JobProcess (newObjectId E (nextOid s))
                                    (path_join (uploadDir E) (stored_name E f)) UploadCatch)],
              nextOid := Suc (nextOid s)\<rparr>))"
  using assms
  by (simp add: uploadRoute_def upload_single_def fileFilter_def throw_def fileSizeLimit_def
        Let_def uploadHandler_def route_def bind_def createDocument_def emit_def driver_def
        spawn_def ret_def uploaded_doc_def stored_name_def)


text \<open>
  Claim C7. The upload route refuses a part exactly when its mimetype is not
  "application/pdf" or it is longer than 100 * 1024 * 1024 bytes; a part of another
  mimetype is refused by the file filter with its error, and nothing is stored. For an
  accepted part whose insert the storage takes, the answer is the inserted document, which
  is in the collection with status "processing" when the answer is made; the pipeline is
  only queued by then.
\<close>

theorem upload_accepts_pdf_only:
  "(part_mimetype f \<noteq> ''application/pdf'' \<longrightarrow>
      uploadRoute E sub (Some f) s
      = (MiddlewareError (ErrorMsg ''Only PDF files are allowed''), s))
   \<and> ((\<exists>e. fst (uploadRoute E sub (Some f) s) = MiddlewareError e)
        = (\<not> (part_mimetype f = ''application/pdf''
               \<and> length (part_content f) \<le> 100 * 1024 * 1024)))
   \<and> (part_mimetype f = ''application/pdf''
        \<and> length (part_content f) \<le> 100 * 1024 * 1024
        \<and> \<not> fails E SCreateDocument (newObjectId E (nextOid s)) \<longrightarrow>
          fst (uploadRoute E sub (Some f) s) = Response 200 (DocumentBody (uploaded_doc E s sub f))
          \<and> documents (snd (uploadRoute E sub (Some f) s))
              = documents s @ [uploaded_doc E s sub f]
          \<and> status (uploaded_doc E s sub f) = ''processing''
          \<and> new_events s (snd (uploadRoute E sub (Some f) s))
              = [EvCreateDocument (uploaded_doc E s sub f),
                 EvSpawn (JobProcess (newObjectId E (nextOid s))
                            (path_join (uploadDir E) (stored_name E f)) UploadCatch)])"
proof (cases "part_mimetype f = ''application/pdf''")
  case False
  then show ?thesis by (simp add: upload_rejects_non_pdf)
next
  case pdf: True
  show ?thesis
  proof (cases "length (part_content f) \<le> 100 * 1024 * 1024")
    case True
    show ?thesis
      using pdf True
      by (simp add: upload_accepted[OF pdf True] new_events_def uploaded_doc_def)
  next
    case False
    then have "length (part_content f) > 100 * 1024 * 1024" by simp
    from upload_rejects_large[OF pdf this] show ?thesis
      using pdf False by simp
  qed
qed

text \<open>
  A text file is refused by the filter; a PDF of four bytes is accepted and answered with
  its new record, stored with status "processing".
\<close>

theorem upload_accepts_pdf_only_witness:
  "part_mimetype example_note \<noteq> ''application/pdf''
   \<and> uploadRoute example_env ''alice'' (Some example_note) example_world
       = (MiddlewareError (ErrorMsg ''Only PDF files are allowed''), example_world)
   \<and> part_mimetype example_part = ''application/pdf''
   \<and> length (part_content example_part) \<le> 100 * 1024 * 1024
   \<and> \<not> fails example_env SCreateDocument (newObjectId example_env (nextOid example_world))
   \<and> fst (uploadRoute example_env ''alice'' (Some example_part) example_world)
       = Response 200 (DocumentBody (uploaded_doc example_env example_world ''alice'' example_part))
   \<and> map status (documents (snd (uploadRoute example_env ''alice'' (Some example_part) example_world)))
       = [''processing'', ''processing'']"
proof -
  have a: "part_mimetype example_note \<noteq> ''application/pdf''"
    by (simp add: example_note_def)
  have b: "part_mimetype example_part = ''application/pdf''"
    "length (part_content example_part) \<le> 100 * 1024 * 1024"
    "\<not> fails example_env SCreateDocument (newObjectId example_env (nextOid example_world))"
    by (simp_all add: example_part_def example_env_def)
  have c: "map status (documents example_world) = [''processing'']"
    by (simp add: example_world_def example_doc_def)
  show ?thesis
    using upload_accepts_pdf_only[of example_note example_env "''alice''" example_world]
      upload_accepts_pdf_only[of example_part example_env "''alice''" example_world] a b c
    by simp
qed

section \<open>Delete\<close>

lemma getDocument_ok:
  assumes "validObjectId E i" and "\<not> fails E SGetDocument i"
  shows "getDocument E i s = (Inr (lookup i s), s)"
  using assms by (simp add: getDocument_def objectId_def bind_def ret_def driver_def lookup_def)

lemma find_delete_first:
  assumes "distinct (map oid xs)"
  shows "find (\<lambda>x. oid x = i) (delete_first (\<lambda>x. oid x = i) xs) = None"
  using assms
proof (induction xs)
  case Nil
  show ?case by simp
next
  case (Cons x xs)
  show ?case
  proof (cases "oid x = i")
    case True
    from Cons.prems have "oid x \<notin> oid ` set xs" by simp
    with True have "\<forall>y \<in> set xs. oid y \<noteq> i" by (metis imageI)
    then have "find (\<lambda>x. oid x = i) xs = None" by (simp add: find_None_iff)
    then show ?thesis using True by simp
  next
    case False
    with Cons show ?thesis by simp
  qed
qed

lemma getDocument_InrD:
  assumes "getDocument E i s = (Inr r, s')"
  shows "r = lookup i s \<and> s' = s"
  using assms
  by (auto simp: getDocument_def objectId_def bind_def ret_def throw_def driver_def lookup_def
           split: if_splits)

lemma unlink_step_InrD:
  assumes "(if existsSync s p then unlinkSync E p s else (Inr (), s)) = (Inr u, s')"
  shows "\<not> existsSync s' p \<and> documents s' = documents s"
  using assms
  by (auto simp: existsSync_def unlinkSync_def bind_def emit_def split: if_splits option.splits)

lemma deleteDocument_InrD:
  assumes "deleteDocument E i s = (Inr u, s')"
  shows "files s' = files s \<and> documents s' = delete_first (\<lambda>x. oid x = i) (documents s)"
  using assms
  by (auto simp: deleteDocument_def objectId_def bind_def ret_def throw_def emit_def driver_def
           split: if_splits)

lemma delete_success:
  assumes "fst (deleteRoute E sub i s) = Response 200 (Message ''Document deleted'')"
  shows "\<exists>d. lookup i s = Some d \<and> userId d = sub
     \<and> \<not> existsSync (snd (deleteRoute E sub i s)) (path_join (uploadDir E) (filename d))
     \<and> documents (snd (deleteRoute E sub i s)) = delete_first (\<lambda>x. oid x = i) (documents s)"
proof -
  let ?m = "bind (getDocument E i) (\<lambda>doc.
          case doc of
            None \<Rightarrow> ret (Response 404 (Message ''Document not found''))
          | Some d \<Rightarrow>
              if userId d \<noteq> sub then ret (Response 403 (Message ''Access denied''))
              else
                 bind (\<lambda>s. if existsSync s (path_join (uploadDir E) (filename d))
                           then unlinkSync E (path_join (uploadDir E) (filename d)) s
                           else (Inr (), s)) (\<lambda>_.
                 bind (deleteDocument E i) (\<lambda>_.
                   ret (Response 200 (Message ''Document deleted'')))))"
  have r: "deleteRoute E sub i = route ''Failed to delete document'' ?m"
    unfolding deleteRoute_def Let_def by (rule refl)
  obtain x s' where m: "?m s = (x, s')" by (cases "?m s")
  with assms r have x: "x = Inr (Response 200 (Message ''Document deleted''))"
    by (cases x) (auto simp: route_def)
  have s': "snd (deleteRoute E sub i s) = s'"
    using m x by (simp add: r route_def)
  from m[unfolded x] obtain doc s1 where g: "getDocument E i s = (Inr doc, s1)"
    and rest: "(case doc of
            None \<Rightarrow> ret (Response 404 (Message ''Document not found''))
          | Some d \<Rightarrow>
              if userId d \<noteq> sub then ret (Response 403 (Message ''Access denied''))
              else
                 bind (\<lambda>s. if existsSync s (path_join (uploadDir E) (filename d))
                           then unlinkSync E (path_join (uploadDir E) (filename d)) s
                           else (Inr (), s)) (\<lambda>_.
                 bind (deleteDocument E i) (\<lambda>_.
                   ret (Response 200 (Message ''Document deleted''))))) s1
           = (Inr (Response 200 (Message ''Document deleted'')), s')"
    by (rule bind_InrE)
  from getDocument_InrD[OF g] have doc: "doc = lookup i s" and s1: "s1 = s" by simp_all
  from rest obtain d where d: "doc = Some d" and own: "userId d = sub"
    by (cases doc) (auto simp: ret_def split: if_splits)
  let ?p = "path_join (uploadDir E) (filename d)"
  from rest[unfolded d s1] own
  have "bind (\<lambda>s. if existsSync s ?p then unlinkSync E ?p s else (Inr (), s)) (\<lambda>_.
                 bind (deleteDocument E i) (\<lambda>_.
                   ret (Response 200 (Message ''Document deleted'')))) s
        = (Inr (Response 200 (Message ''Document deleted'')), s')"
    by simp
  then obtain u s2 u' s3 where
    a: "(if existsSync s ?p then unlinkSync E ?p s else (Inr (), s)) = (Inr u, s2)"
    and b: "deleteDocument E i s2 = (Inr u', s3)"
    and c: "ret (Response 200 (Message ''Document deleted'')) s3
            = (Inr (Response 200 (Message ''Document deleted'')), s')"
    by (elim bind_InrE)
  from c have "s3 = s'" by (simp add: ret_def)
  with unlink_step_InrD[OF a] deleteDocument_InrD[OF b]
  have "\<not> existsSync s' ?p \<and> documents s' = delete_first (\<lambda>x. oid x = i) (documents s)"
    by (simp add: existsSync_def)
  with d doc own s' show ?thesis by auto
qed

lemma delete_file_absent:
  assumes "lookup i s = Some d" and "userId d = sub"
    and "\<not> existsSync s (path_join (uploadDir E) (filename d))"
    and "validObjectId E i" and "\<not> fails E SGetDocument i" and "\<not> fails E SDeleteDocument i"
  shows "deleteRoute E sub i s =
     (Response 200 (Message ''Document deleted''),
      s\<lparr>documents := delete_first (\<lambda>x. oid x = i) (documents s),
        trace := trace s @ [EvDeleteDocument i]\<rparr>)"
  using assms
  by (simp add: deleteRoute_def Let_def route_def bind_def getDocument_ok deleteDocument_def
        objectId_def ret_def emit_def driver_def)


text \<open>
  Claim C9. When the delete route answers "Document deleted", the document was the
  requester's, the file \<open>uploads/<filename>\<close> does not exist any more, and the record has
  been removed from the collection (with unique ids, no record of that id is left). And
  when the file is already absent, the storage calls going through, the route still answers
  "Document deleted" and the record is removed.
\<close>

theorem delete_removes_file_and_record:
  "(fst (deleteRoute E sub i s) = Response 200 (Message ''Document deleted'') \<longrightarrow>
      (\<exists>d. lookup i s = Some d \<and> userId d = sub
         \<and> \<not> existsSync (snd (deleteRoute E sub i s)) (path_join (uploadDir E) (filename d))
         \<and> documents (snd (deleteRoute E sub i s))
             = delete_first (\<lambda>x. oid x = i) (documents s))
      \<and> (distinct (doc_ids s) \<longrightarrow> lookup i (snd (deleteRoute E sub i s)) = None))
   \<and> (lookup i s = Some d \<and> userId d = sub
        \<and> \<not> existsSync s (path_join (uploadDir E) (filename d))
        \<and> validObjectId E i \<and> \<not> fails E SGetDocument i \<and> \<not> fails E SDeleteDocument i \<longrightarrow>
          fst (deleteRoute E sub i s) = Response 200 (Message ''Document deleted'')
          \<and> documents (snd (deleteRoute E sub i s))
              = delete_first (\<lambda>x. oid x = i) (documents s))"
proof -
  have a: "lookup i (snd (deleteRoute E sub i s)) = None"
    if "fst (deleteRoute E sub i s) = Response 200 (Message ''Document deleted'')"
      and "distinct (doc_ids s)"
    using delete_success[OF that(1)] that(2)
    by (auto simp: lookup_def doc_ids_def find_delete_first)
  show ?thesis
    using delete_success[of E sub i s] a delete_file_absent[of i s d sub E]
    by auto
qed

lemma example_delete:
  "deleteRoute example_env ''alice'' ''d1'' example_world
   = (Response 200 (Message ''Document deleted''),
      example_world\<lparr>documents := [], files := Map.empty,
        trace := [EvUnlink example_path, EvDeleteDocument ''d1'']\<rparr>)"
  by (simp add: deleteRoute_def Let_def route_def bind_def getDocument_ok lookup_def
        deleteDocument_def objectId_def ret_def emit_def driver_def existsSync_def
        unlinkSync_def uploadDir_def path_join_def example_env_def example_world_def
        example_doc_def example_path_def)

text \<open>
  Deleting the example document removes its file and its record; with the file already
  gone, the record is removed all the same.
\<close>

theorem delete_removes_file_and_record_witness:
  "fst (deleteRoute example_env ''alice'' ''d1'' example_world)
     = Response 200 (Message ''Document deleted'')
   \<and> distinct (doc_ids example_world)
   \<and> existsSync example_world example_path
   \<and> \<not> existsSync (snd (deleteRoute example_env ''alice'' ''d1'' example_world)) example_path
   \<and> lookup ''d1'' (snd (deleteRoute example_env ''alice'' ''d1'' example_world)) = None
   \<and> lookup ''d1'' (example_world\<lparr>files := Map.empty\<rparr>) = Some example_doc
   \<and> userId example_doc = ''alice''
   \<and> \<not> existsSync (example_world\<lparr>files := Map.empty\<rparr>)
         (path_join (uploadDir example_env) (filename example_doc))
   \<and> fst (deleteRoute example_env ''alice'' ''d1'' (example_world\<lparr>files := Map.empty\<rparr>))
       = Response 200 (Message ''Document deleted'')
   \<and> documents (snd (deleteRoute example_env ''alice'' ''d1''
                        (example_world\<lparr>files := Map.empty\<rparr>))) = []"
proof -
  have h1: "fst (deleteRoute example_env ''alice'' ''d1'' example_world)
     = Response 200 (Message ''Document deleted'')"
    by (simp add: example_delete)
  have h2: "distinct (doc_ids example_world)" "existsSync example_world example_path"
    by (simp_all add: doc_ids_def example_world_def existsSync_def example_path_def)
  have p: "path_join (uploadDir example_env) (filename example_doc) = example_path"
    by (simp add: uploadDir_def path_join_def example_env_def example_doc_def example_path_def)
  have h3: "lookup ''d1'' (example_world\<lparr>files := Map.empty\<rparr>) = Some example_doc"
    "userId example_doc = ''alice''"
    "\<not> existsSync (example_world\<lparr>files := Map.empty\<rparr>)
         (path_join (uploadDir example_env) (filename example_doc))"
    "validObjectId example_env ''d1''" "\<not> fails example_env SGetDocument ''d1''"
    "\<not> fails example_env SDeleteDocument ''d1''"
    by (simp_all add: lookup_def example_world_def example_doc_def existsSync_def
          example_env_def)
  have l: "lookup ''d1'' example_world = Some example_doc"
    by (simp add: lookup_def example_world_def example_doc_def)
  have e: "delete_first (\<lambda>x. oid x = ''d1'') (documents (example_world\<lparr>files := Map.empty\<rparr>)) = []"
    by (simp add: example_world_def example_doc_def)
  note t1 = delete_removes_file_and_record[of example_env "''alice''" "''d1''" example_world
      example_doc]
  note t2 = delete_removes_file_and_record[of example_env "''alice''" "''d1''"
      "example_world\<lparr>files := Map.empty\<rparr>" example_doc]
  from t1 h1 h2 l p
  have c1: "\<not> existsSync (snd (deleteRoute example_env ''alice'' ''d1'' example_world)) example_path"
    "lookup ''d1'' (snd (deleteRoute example_env ''alice'' ''d1'' example_world)) = None"
    by auto
  from t2 h3
  have c2: "fst (deleteRoute example_env ''alice'' ''d1'' (example_world\<lparr>files := Map.empty\<rparr>))
       = Response 200 (Message ''Document deleted'')"
    "documents (snd (deleteRoute example_env ''alice'' ''d1''
                        (example_world\<lparr>files := Map.empty\<rparr>)))
     = delete_first (\<lambda>x. oid x = ''d1'') (documents (example_world\<lparr>files := Map.empty\<rparr>))"
    by blast+
  show ?thesis
    using h1 h2 h3 c1 c2 e by simp
qed

section \<open>Ownership\<close>

lemma getDocumentWithExtractions_None:
  assumes "validObjectId E i" and "\<not> fails E SGetDocument i" and "lookup i s = None"
  shows "getDocumentWithExtractions E i s = (Inr None, s)"
  using assms by (simp add: getDocumentWithExtractions_def bind_def getDocument_ok ret_def)

lemma getDocumentWithExtractions_Some:
  assumes "validObjectId E i" and "\<not> fails E SGetDocument i" and "lookup i s = Some d"
    and "\<not> fails E SGetExtractions i" and "\<not> fails E SGetPages i"
  shows "\<exists>xs t. getDocumentWithExtractions E i s = (Inr (Some (d, xs, t)), s)"
  using assms
  by (simp add: getDocumentWithExtractions_def bind_def getDocument_ok ret_def
        getExtractions_def getPages_def driver_def)

lemma routes_not_found:
  assumes "validObjectId E i" and "\<not> fails E SGetDocument i" and "lookup i s = None"
  shows "deleteRoute E sub i s = not_found s"
    and "retryRoute E sub i s = not_found s"
    and "getChatRoute E sub i s = not_found s"
    and "i \<noteq> [] \<and> i \<noteq> ''undefined'' \<and> i \<noteq> ''null'' \<Longrightarrow> getDocumentRoute E sub i s = not_found s"
    and "i \<noteq> [] \<and> \<not> falsy c \<Longrightarrow> postChatRoute E sub (Some i) c s = not_found s"
  using assms
  by (simp_all add: deleteRoute_def retryRoute_def getChatRoute_def getDocumentRoute_def
        postChatRoute_def route_def bind_def getDocument_ok ret_def not_found_def
        getDocumentWithExtractions_None Let_def falsy_def)

lemma routes_denied:
  assumes "validObjectId E i" and "\<not> fails E SGetDocument i" and "lookup i s = Some d"
    and "userId d \<noteq> sub"
  shows "deleteRoute E sub i s = denied s"
    and "retryRoute E sub i s = denied s"
    and "getChatRoute E sub i s = denied s"
  using assms
  by (simp_all add: deleteRoute_def retryRoute_def getChatRoute_def
        route_def bind_def getDocument_ok ret_def denied_def)

lemma routes_denied_detail:
  assumes "validObjectId E i" and "\<not> fails E SGetDocument i" and "lookup i s = Some d"
    and "userId d \<noteq> sub" and "\<not> fails E SGetExtractions i" and "\<not> fails E SGetPages i"
  shows "i \<noteq> [] \<and> i \<noteq> ''undefined'' \<and> i \<noteq> ''null'' \<Longrightarrow> getDocumentRoute E sub i s = denied s"
    and "i \<noteq> [] \<and> \<not> falsy c \<Longrightarrow> postChatRoute E sub (Some i) c s = denied s"
proof -
  from getDocumentWithExtractions_Some[OF assms(1,2,3,5,6)] obtain xs t where
    g: "getDocumentWithExtractions E i s = (Inr (Some (d, xs, t)), s)" by blast
  show "i \<noteq> [] \<and> i \<noteq> ''undefined'' \<and> i \<noteq> ''null'' \<Longrightarrow> getDocumentRoute E sub i s = denied s"
    using assms(4) by (simp add: getDocumentRoute_def route_def bind_def g ret_def denied_def)
  show "i \<noteq> [] \<and> \<not> falsy c \<Longrightarrow> postChatRoute E sub (Some i) c s = denied s"
    using assms(4)
    by (simp add: postChatRoute_def route_def bind_def g ret_def denied_def Let_def falsy_def)
qed


text \<open>
  Claim C8, amended. On the five per-document routes, for an id the driver accepts and a
  lookup that goes through: a request the route's own validation lets pass (for get
  document an id that is not empty, "undefined" or "null"; for post chat a non-empty
  document id and content) is answered 404 when no document has the id, and 403 "Access
  denied" when the document is someone else's (for get document and post chat, which load
  extractions and pages first, when those reads go through too). In both cases the world is
  exactly as before: nothing deleted, nothing queued, no message saved, nothing written.
\<close>

theorem ownership_checked:
  "validObjectId E i \<and> \<not> fails E SGetDocument i \<longrightarrow>
     (lookup i s = None \<longrightarrow>
        deleteRoute E sub i s = not_found s
        \<and> retryRoute E sub i s = not_found s
        \<and> getChatRoute E sub i s = not_found s
        \<and> (i \<noteq> [] \<and> i \<noteq> ''undefined'' \<and> i \<noteq> ''null'' \<longrightarrow>
             getDocumentRoute E sub i s = not_found s)
        \<and> (i \<noteq> [] \<and> \<not> falsy c \<longrightarrow> postChatRoute E sub (Some i) c s = not_found s))
     \<and> (\<forall>d. lookup i s = Some d \<and> userId d \<noteq> sub \<longrightarrow>
          deleteRoute E sub i s = denied s
          \<and> retryRoute E sub i s = denied s
          \<and> getChatRoute E sub i s = denied s
          \<and> (\<not> fails E SGetExtractions i \<and> \<not> fails E SGetPages i \<longrightarrow>
               (i \<noteq> [] \<and> i \<noteq> ''undefined'' \<and> i \<noteq> ''null'' \<longrightarrow>
                  getDocumentRoute E sub i s = denied s)
               \<and> (i \<noteq> [] \<and> \<not> falsy c \<longrightarrow> postChatRoute E sub (Some i) c s = denied s)))"
  by (intro impI conjI allI; elim conjE)
     (simp_all add: routes_not_found routes_denied routes_denied_detail)

text \<open>
  Another user asking for the example document is refused with 403 on all five routes, and
  asking for an id nobody has is answered 404, the world untouched.
\<close>

theorem ownership_checked_witness:
  "validObjectId example_env ''d1'' \<and> \<not> fails example_env SGetDocument ''d1''
   \<and> \<not> fails example_env SGetExtractions ''d1'' \<and> \<not> fails example_env SGetPages ''d1''
   \<and> lookup ''d1'' example_world = Some example_doc \<and> userId example_doc \<noteq> ''bob''
   \<and> \<not> falsy (Some example_text)
   \<and> deleteRoute example_env ''bob'' ''d1'' example_world = denied example_world
   \<and> retryRoute example_env ''bob'' ''d1'' example_world = denied example_world
   \<and> getChatRoute example_env ''bob'' ''d1'' example_world = denied example_world
   \<and> getDocumentRoute example_env ''bob'' ''d1'' example_world = denied example_world
   \<and> postChatRoute example_env ''bob'' (Some ''d1'') (Some example_text) example_world
       = denied example_world
   \<and> lookup ''d2'' example_world = None
   \<and> deleteRoute example_env ''bob'' ''d2'' example_world = not_found example_world
   \<and> retryRoute example_env ''bob'' ''d2'' example_world = not_found example_world
   \<and> getChatRoute example_env ''bob'' ''d2'' example_world = not_found example_world
   \<and> getDocumentRoute example_env ''bob'' ''d2'' example_world = not_found example_world
   \<and> postChatRoute example_env ''bob'' (Some ''d2'') (Some example_text) example_world
       = not_found example_world"
proof -
  have e: "validObjectId example_env j" "\<not> fails example_env st j" for st j
    by (simp_all add: example_env_def)
  have l: "lookup ''d1'' example_world = Some example_doc" "userId example_doc \<noteq> ''bob''"
    "lookup ''d2'' example_world = None"
    by (simp_all add: lookup_def example_world_def example_doc_def)
  have c: "\<not> falsy (Some example_text)"
    by (simp add: falsy_def example_text_def js_def)
  show ?thesis
    using ownership_checked[of example_env "''d1''" example_world "''bob''" "Some example_text"]
      ownership_checked[of example_env "''d2''" example_world "''bob''" "Some example_text"]
      e l c
    by simp
qed

text \<open>
  Claim C8 as stated answers 403 whenever the document is someone else's and 404 whenever
  it does not exist. Post chat with empty content on someone else's document answers 400,
  and get document for the id "null", which no document has, answers 400: both routes
  validate the request before they look the document up.
\<close>

theorem ownership_checked_counterexample:
  "lookup ''d1'' example_world = Some example_doc \<and> userId example_doc \<noteq> ''bob''
   \<and> postChatRoute example_env ''bob'' (Some ''d1'') (Some []) example_world
       = (Response 400 (Message ''Missing documentId or content''), example_world)
   \<and> lookup ''null'' example_world = None
   \<and> getDocumentRoute example_env ''bob'' ''null'' example_world
       = (Response 400 (Message ''Invalid document ID''), example_world)"
  by (simp add: lookup_def example_world_def example_doc_def postChatRoute_def
        getDocumentRoute_def route_def ret_def falsy_def)

section \<open>The startup sweep\<close>

lemma process_starts_append: "process_starts (a @ b) = process_starts a @ process_starts b"
  by (simp add: process_starts_def map_filter_def)

lemma sweep_marks_append: "sweep_marks (a @ b) = sweep_marks a @ sweep_marks b"
  by (simp add: sweep_marks_def map_filter_def)

lemma quiet_events: "list_all quiet evs \<Longrightarrow> process_starts evs = [] \<and> sweep_marks evs = []"
  by (induction evs) (simp_all add: process_starts_def sweep_marks_def map_filter_def quiet_def)

lemma emits_pipeline_quiet:
  "emits quiet (catch (processDocument_try E i p) (\<lambda>e.
       bind (updateDocument E SMarkError i (upd (Some ''error'') (Some (- 1))))
         (\<lambda>_. throw e)))"
  unfolding processDocument_try_def Let_def
  by (intro emits_rules) (simp_all add: quiet_def upd_def)

lemma processDocument_events:
  "\<exists>evs. trace (snd (processDocument E i p s)) = trace s @ EvProcessDocument i p # evs
         \<and> list_all quiet evs"
proof -
  let ?s1 = "s\<lparr>trace := trace s @ [EvProcessDocument i p]\<rparr>"
  let ?m = "catch (processDocument_try E i p) (\<lambda>e.
       bind (updateDocument E SMarkError i (upd (Some ''error'') (Some (- 1))))
         (\<lambda>_. throw e))"
  from emits_pipeline_quiet[of E i p] obtain evs where
    "trace (snd (?m ?s1)) = trace ?s1 @ evs" "list_all quiet evs"
    unfolding emits_def by blast
  moreover have "processDocument E i p s = ?m ?s1"
    by (simp add: processDocument_def bind_def emit_def)
  ultimately show ?thesis by auto
qed

lemma sweep_mark_events:
  "trace (snd (bind (updateDocument E SSweepMarkError i (upd (Some ''error'') None))
                 (\<lambda>_. ret ()) s))
   = trace s @ (if validObjectId E i then [EvUpdateDocument i (upd (Some ''error'') None)] else [])"
  by (simp add: updateDocument_def objectId_def bind_def ret_def throw_def emit_def driver_def)

lemma reprocessAll_events:
  "\<exists>evs. trace (snd (reprocessAll E plan s)) = trace s @ evs
     \<and> process_starts evs
         = map (\<lambda>(i, p, there). (i, p)) (filter (\<lambda>(i, p, there). there) plan)
     \<and> sweep_marks evs
         = map fst (filter (\<lambda>(i, p, there). \<not> there \<and> validObjectId E i) plan)"
proof (induction plan arbitrary: s)
  case Nil
  show ?case by (simp add: process_starts_def sweep_marks_def map_filter_def)
next
  case (Cons x rest)
  obtain i p there where x: "x = (i, p, there)" by (cases x)
  let ?step = "if there then processDocument E i p
               else bind (updateDocument E SSweepMarkError i (upd (Some ''error'') None))
                      (\<lambda>_. ret ())"
  obtain r s1 where st: "?step s = (r, s1)" by (cases "?step s")
  have "\<exists>e1. trace s1 = trace s @ e1
          \<and> process_starts e1 = (if there then [(i, p)] else [])
          \<and> sweep_marks e1 = (if \<not> there \<and> validObjectId E i then [i] else [])"
  proof (cases there)
    case True
    from processDocument_events[of E i p s] obtain evs where
      "trace (snd (processDocument E i p s)) = trace s @ EvProcessDocument i p # evs"
      "list_all quiet evs" by blast
    with quiet_events[of evs] True st show ?thesis
      by (auto simp: process_starts_def sweep_marks_def map_filter_def)
  next
    case False
    with st sweep_mark_events[of E i s] show ?thesis
      by (auto simp: process_starts_def sweep_marks_def map_filter_def)
  qed
  then obtain e1 where e1: "trace s1 = trace s @ e1"
    "process_starts e1 = (if there then [(i, p)] else [])"
    "sweep_marks e1 = (if \<not> there \<and> validObjectId E i then [i] else [])"
    by blast
  from Cons.IH[of s1] obtain e2 where e2: "trace (snd (reprocessAll E rest s1)) = trace s1 @ e2"
    "process_starts e2 = map (\<lambda>(i, p, there). (i, p)) (filter (\<lambda>(i, p, there). there) rest)"
    "sweep_marks e2 = map fst (filter (\<lambda>(i, p, there). \<not> there \<and> validObjectId E i) rest)"
    by blast
  have "snd (reprocessAll E (x # rest) s) = snd (reprocessAll E rest s1)"
    using st by (simp add: x split: prod.splits)
  then have "trace (snd (reprocessAll E (x # rest) s)) = trace s @ (e1 @ e2)"
    using e1(1) e2(1) by simp
  moreover have "process_starts (e1 @ e2)
         = map (\<lambda>(i, p, there). (i, p)) (filter (\<lambda>(i, p, there). there) (x # rest))"
    using e1(2) e2(2) by (simp add: process_starts_append x)
  moreover have "sweep_marks (e1 @ e2)
         = map fst (filter (\<lambda>(i, p, there). \<not> there \<and> validObjectId E i) (x # rest))"
    using e1(3) e2(3) by (simp add: sweep_marks_append x)
  ultimately show ?case by blast
qed


lemma startupSweep_events:
  assumes "\<not> fails E SGetDocuments mockUserId"
  shows "process_starts (new_events s (startupSweep E s))
         = map (\<lambda>d. (oid d, doc_path E d)) (filter (\<lambda>d. existsSync s (doc_path E d)) (stuck_of s))"
    and "sweep_marks (new_events s (startupSweep E s))
         = map oid (filter (\<lambda>d. \<not> existsSync s (doc_path E d) \<and> validObjectId E (oid d))
                      (stuck_of s))"
proof -
  let ?plan = "map (\<lambda>doc. (oid doc, doc_path E doc, existsSync s (doc_path E doc))) (stuck_of s)"
  have sw: "startupSweep E s = snd (reprocessAll E ?plan s)"
    using assms
    by (simp add: startupSweep_def getDocuments_def driver_def Let_def stuck_of_def
          doc_path_def)
  from reprocessAll_events[of E ?plan s] obtain evs where
    evs: "trace (snd (reprocessAll E ?plan s)) = trace s @ evs"
    "process_starts evs = map (\<lambda>(i, p, there). (i, p)) (filter (\<lambda>(i, p, there). there) ?plan)"
    "sweep_marks evs
       = map fst (filter (\<lambda>(i, p, there). \<not> there \<and> validObjectId E i) ?plan)"
    by blast
  have n: "new_events s (startupSweep E s) = evs"
    by (simp add: new_events_def sw evs(1))
  show "process_starts (new_events s (startupSweep E s))
         = map (\<lambda>d. (oid d, doc_path E d)) (filter (\<lambda>d. existsSync s (doc_path E d)) (stuck_of s))"
    by (simp add: n evs(2) filter_map o_def)
  show "sweep_marks (new_events s (startupSweep E s))
         = map oid (filter (\<lambda>d. \<not> existsSync s (doc_path E d) \<and> validObjectId E (oid d))
                      (stuck_of s))"
    by (simp add: n evs(3) filter_map o_def)
qed

lemma stuck_of_jobs: "stuck_of (s\<lparr>jobs := queue\<rparr>) = stuck_of s"
  by (simp add: stuck_of_def)

text \<open>
  What the sweep does as it is written. When its query goes through, it enters
  \<open>processDocument\<close> once for every document of the user "mock-user-id-123" that has
  status "processing" and whose file exists, on the path \<open>uploads/<filename>\<close>, in the order
  of the query, and for no other document; and it writes status "error" for exactly those
  of them whose file is missing (and whose id the driver accepts). Which jobs are already
  queued makes no difference: the sweep does not look at them.
\<close>

lemma sweep_restarts_mock_user_documents:
  "\<not> fails E SGetDocuments mockUserId \<longrightarrow>
     process_starts (new_events (s\<lparr>jobs := queue\<rparr>) (startupSweep E (s\<lparr>jobs := queue\<rparr>)))
       = map (\<lambda>d. (oid d, doc_path E d))
           (filter (\<lambda>d. existsSync s (doc_path E d)) (stuck_of s))
     \<and> sweep_marks (new_events (s\<lparr>jobs := queue\<rparr>) (startupSweep E (s\<lparr>jobs := queue\<rparr>)))
       = map oid (filter (\<lambda>d. \<not> existsSync s (doc_path E d) \<and> validObjectId E (oid d))
                    (stuck_of s))"
  using startupSweep_events[of E "s\<lparr>jobs := queue\<rparr>"]
  by (simp add: stuck_of_jobs existsSync_def)

lemma example_stuck_of:
  "stuck_of example_mock_world
   = [example_doc\<lparr>oid := ''m1'', userId := ''mock-user-id-123''\<rparr>,
      example_doc\<lparr>oid := ''m2'', userId := ''mock-user-id-123'', filename := ''gone.pdf''\<rparr>]"
  by (simp add: stuck_of_def example_mock_world_def example_world_def example_doc_def
        mockUserId_def stuckDocuments_def uploadRank_def)

text \<open>
  Of the mock user's three documents the sweep restarts the stuck one with a file, though
  a retry of it is already queued, marks the stuck one without a file, and leaves the
  completed one alone.
\<close>

lemma sweep_restarts_mock_user_documents_example:
  "\<not> fails example_env SGetDocuments mockUserId
   \<and> process_starts
        (new_events (example_mock_world\<lparr>jobs := [JobProcess ''m1'' example_path RetryCatch]\<rparr>)
           (startupSweep example_env
              (example_mock_world\<lparr>jobs := [JobProcess ''m1'' example_path RetryCatch]\<rparr>)))
       = [(''m1'', example_path)]
   \<and> sweep_marks
        (new_events (example_mock_world\<lparr>jobs := [JobProcess ''m1'' example_path RetryCatch]\<rparr>)
           (startupSweep example_env
              (example_mock_world\<lparr>jobs := [JobProcess ''m1'' example_path RetryCatch]\<rparr>)))
       = [''m2'']"
proof -
  have f: "\<not> fails example_env SGetDocuments mockUserId"
    by (simp add: example_env_def)
  have a: "map (\<lambda>d. (oid d, doc_path example_env d))
           (filter (\<lambda>d. existsSync example_mock_world (doc_path example_env d))
              (stuck_of example_mock_world)) = [(''m1'', example_path)]"
    by (simp add: example_stuck_of)
       (simp add: doc_path_def uploadDir_def path_join_def existsSync_def example_env_def
          example_mock_world_def example_world_def example_doc_def example_path_def)
  have b: "map oid (filter (\<lambda>d. \<not> existsSync example_mock_world (doc_path example_env d)
                         \<and> validObjectId example_env (oid d))
                    (stuck_of example_mock_world)) = [''m2'']"
    by (simp add: example_stuck_of)
       (simp add: doc_path_def uploadDir_def path_join_def existsSync_def example_env_def
          example_mock_world_def example_world_def example_doc_def example_path_def)
  show ?thesis
    using sweep_restarts_mock_user_documents[where E=example_env and s=example_mock_world
        and queue="[JobProcess ''m1'' example_path RetryCatch]"] f
    by (simp add: a b)
qed

text \<open>
  Claim C5. The sweep is meant to restart every document left in "processing", whoever
  owns it, and its own comment says so ("find and re-process any documents that are stuck
  in the processing state"). The code does not: it asks the storage for the documents
  of the hard-coded user "mock-user-id-123" only. The example document is stuck, its file
  exists, and it belongs to "alice": the sweep leaves the world as it is and enters no
  pipeline.
\<close>

theorem sweep_misses_other_owner:
  "map status (documents example_world) = [''processing'']
   \<and> map userId (documents example_world) = [''alice'']
   \<and> existsSync example_world (doc_path example_env example_doc)
   \<and> \<not> fails example_env SGetDocuments mockUserId
   \<and> startupSweep example_env example_world = example_world
   \<and> process_starts (new_events example_world (startupSweep example_env example_world)) = []"
  by (simp add: startupSweep_def getDocuments_def driver_def Let_def stuckDocuments_def
        mockUserId_def example_env_def example_world_def example_doc_def existsSync_def
        doc_path_def uploadDir_def path_join_def new_events_def process_starts_def
        map_filter_def)

end
